theory Spec2Isabelle
  imports Main "HOL-Library.Char_ord" "HOL-Library.List_Lexorder"
begin

text \<open>
  A model of the NIP-17 direct-message subsystem of nostr-polls: the inbox relay resolver,
  the conversation state kept by the DM context provider, the gift-wrap protocol, sending,
  and the delivery tracker of the chat view. Each function of the sources is a definition of
  the same name; state it reads or writes is passed in and returned; what it takes from its
  environment (the network, the clock, random draws, the libraries) is a parameter.
\<close>

section \<open>Values shared by the modules\<close>

text \<open>
  A JavaScript value of static type \<^verbatim>\<open>string\<close> that may be \<^verbatim>\<open>undefined\<close> at run time
  (the result of \<^verbatim>\<open>t[1]\<close> on a tag that is too short) is a \<open>string option\<close>;
  \<open>None\<close> is the missing value.
\<close>

type_synonym jsstr = "string option"

text \<open>\<^verbatim>\<open>xs[i]\<close> on a JavaScript array: \<^verbatim>\<open>undefined\<close> out of range, never an exception.\<close>

definition js_index :: "'a list \<Rightarrow> nat \<Rightarrow> 'a option" where
  "js_index xs i = (if i < length xs then Some (xs ! i) else None)"

text \<open>A thrown \<^verbatim>\<open>Error\<close>, with its message.\<close>

datatype error = Error string

text \<open>
  The wire event (\<^verbatim>\<open>Event\<close> of nostr-tools) and the rumor
  (\<^verbatim>\<open>UnsignedEvent & { id: string }\<close>, nip17.ts line 17).
\<close>

record Event =
  e_id :: string
  e_pubkey :: string
  e_created_at :: int
  e_kind :: int
  e_tags :: "string list list"
  e_content :: string
  e_sig :: string

record Rumor =
  r_id :: string
  r_pubkey :: string
  r_created_at :: int
  r_kind :: int
  r_tags :: "string list list"
  r_content :: string

section \<open>Inbox relay resolver (nip17.ts, lines 32--129)\<close>

record CachedRelays =
  cr_relays :: "jsstr list"
  cr_created_at :: int

text \<open>
  The resolver's state: the module-level \<^verbatim>\<open>inboxRelayCache\<close> map and the
  \<^verbatim>\<open>localStorage\<close> entries under the prefix \<^verbatim>\<open>inbox_relays_\<close>, keyed by pubkey.
  \<^verbatim>\<open>readRelayStore\<close> and \<^verbatim>\<open>writeRelayStore\<close> are the lookup and the update of
  \<open>relayStore\<close>: the store holds what \<^verbatim>\<open>writeRelayStore\<close> wrote. \<open>relayStoreFull\<close>
  says that \<^verbatim>\<open>localStorage.setItem\<close> throws (the quota is used up); \<^verbatim>\<open>writeRelayStore\<close>
  catches that and leaves the store as it was.
\<close>

record relay_state =
  inboxRelayCache :: "string \<rightharpoonup> jsstr list"
  relayStore :: "string \<rightharpoonup> CachedRelays"
  relayStoreFull :: bool

definition readRelayStore :: "relay_state \<Rightarrow> string \<Rightarrow> CachedRelays option" where
  "readRelayStore s pubkey = relayStore s pubkey"

definition writeRelayStore :: "string \<Rightarrow> CachedRelays \<Rightarrow> relay_state \<Rightarrow> relay_state" where
  "writeRelayStore pubkey data s =
     (if relayStoreFull s then s else s\<lparr>relayStore := (relayStore s)(pubkey \<mapsto> data)\<rparr>)"

text \<open>
  The outcome of \<^verbatim>\<open>await nostrRuntime.fetchOne(defaultRelays, ...)\<close>: the promise rejects
  (\<open>Inl\<close>), or resolves to an event or to \<^verbatim>\<open>null\<close>.
\<close>

type_synonym fetch_outcome = "error + Event option"

definition relay_tags :: "Event \<Rightarrow> jsstr list" where
  "relay_tags event =
     map (\<lambda>t. js_index t 1) (filter (\<lambda>t. js_index t 0 = Some ''relay'') (e_tags event))"

definition fallback :: "jsstr list" where
  "fallback = [Some ''wss://relay.damus.io/'']"

definition fetchRelaysFromNetwork ::
  "fetch_outcome \<Rightarrow> string \<Rightarrow> int \<Rightarrow> bool \<Rightarrow> relay_state \<Rightarrow> jsstr list \<times> relay_state" where
  "fetchRelaysFromNetwork outcome pubkey knownAt persist s =
     (let newer =
        (case outcome of
           Inr (Some event) \<Rightarrow>
             (let relays = relay_tags event in
              if length relays > 0 \<and> e_created_at event > knownAt
              then Some (relays, e_created_at event) else None)
         | _ \<Rightarrow> None)
      in case newer of
        Some (relays, at) \<Rightarrow>
          (let s1 = s\<lparr>inboxRelayCache := (inboxRelayCache s)(pubkey \<mapsto> relays)\<rparr>;
               s2 = (if persist
                     then writeRelayStore pubkey \<lparr>cr_relays = relays, cr_created_at = at\<rparr> s1
                     else s1)
           in (relays, s2))
      | None \<Rightarrow>
          (case inboxRelayCache s pubkey of
             Some cached \<Rightarrow> (cached, s)
           | None \<Rightarrow>
               (let s1 = s\<lparr>inboxRelayCache := (inboxRelayCache s)(pubkey \<mapsto> fallback)\<rparr>;
                    s2 = (if persist
                          then writeRelayStore pubkey \<lparr>cr_relays = fallback, cr_created_at = 0\<rparr> s1
                          else s1)
                in (fallback, s2))))"

text \<open>
  \<^verbatim>\<open>fetchInboxRelays\<close>. \<open>outcome\<close> is what the network answers to the request this call
  makes (the awaited one of the cold start, or the fire-and-forget revalidation after a
  \<^verbatim>\<open>localStorage\<close> hit, whose result is dropped but whose cache writes stay).
\<close>

definition fetchInboxRelays ::
  "fetch_outcome \<Rightarrow> string \<Rightarrow> bool \<Rightarrow> relay_state \<Rightarrow> jsstr list \<times> relay_state" where
  "fetchInboxRelays outcome pubkey persist s =
     (case inboxRelayCache s pubkey of
        Some hit \<Rightarrow> (hit, s)
      | None \<Rightarrow>
          (case (if persist then readRelayStore s pubkey else None) of
             Some stored \<Rightarrow>
               (let s1 = s\<lparr>inboxRelayCache := (inboxRelayCache s)(pubkey \<mapsto> cr_relays stored)\<rparr>;
                    s2 = snd (fetchRelaysFromNetwork outcome pubkey (cr_created_at stored) persist s1)
                in (cr_relays stored, s2))
           | None \<Rightarrow> fetchRelaysFromNetwork outcome pubkey 0 persist s))"

text \<open>
  The state in which no cached list is empty: every entry of the in-memory map and every
  persisted entry holds at least one relay.
\<close>

definition relays_nonempty :: "relay_state \<Rightarrow> bool" where
  "relays_nonempty s \<longleftrightarrow>
     (\<forall>pk rs. inboxRelayCache s pk = Some rs \<longrightarrow> rs \<noteq> []) \<and>
     (\<forall>pk c. relayStore s pk = Some c \<longrightarrow> cr_relays c \<noteq> [])"

text \<open>A session: the calls made one after the other, each with the network's answer.\<close>

fun fetch_session ::
  "(fetch_outcome \<times> string \<times> bool) list \<Rightarrow> relay_state \<Rightarrow> jsstr list list" where
  "fetch_session [] s = []"
| "fetch_session ((outcome, pubkey, persist) # calls) s =
     (let (rs, s') = fetchInboxRelays outcome pubkey persist s in rs # fetch_session calls s')"

section \<open>Conversation ids (nip17.ts, lines 495--498)\<close>

text \<open>
  \<^verbatim>\<open>xs.join(sep)\<close>; an \<^verbatim>\<open>undefined\<close> element is written as the empty string.
\<close>

fun js_join :: "string \<Rightarrow> jsstr list \<Rightarrow> string" where
  "js_join sep [] = []"
| "js_join sep [x] = (case x of None \<Rightarrow> [] | Some v \<Rightarrow> v)"
| "js_join sep (x # y # ys) = (case x of None \<Rightarrow> [] | Some v \<Rightarrow> v) @ sep @ js_join sep (y # ys)"

text \<open>\<^verbatim>\<open>s.split(c)\<close> for a one-character separator.\<close>

fun js_split :: "char \<Rightarrow> string \<Rightarrow> string list" where
  "js_split c [] = [[]]"
| "js_split c (x # xs) =
     (if x = c then [] # js_split c xs
      else (case js_split c xs of [] \<Rightarrow> [[x]] | w # ws \<Rightarrow> (x # w) # ws))"

text \<open>
  \<^verbatim>\<open>Array.prototype.sort()\<close> without a comparator: the strings in ascending order of
  their code units, every \<^verbatim>\<open>undefined\<close> after them.
\<close>

definition js_sort :: "jsstr list \<Rightarrow> jsstr list" where
  "js_sort xs = map Some (sort (List.map_filter (\<lambda>x. x) xs)) @ filter (\<lambda>x. x = None) xs"

text \<open>
  \<^verbatim>\<open>Array.from(new Set(xs))\<close>: each value once, at the place of its first occurrence.
\<close>

definition js_dedup :: "'a list \<Rightarrow> 'a list" where
  "js_dedup xs = rev (remdups (rev xs))"

definition getConversationId :: "string \<Rightarrow> jsstr list \<Rightarrow> string" where
  "getConversationId myPubkey pTags =
     (let participants = js_dedup (Some myPubkey # pTags)
      in js_join ''+'' (js_sort participants))"

section \<open>Conversation state (the DM context provider)\<close>

record DMMessage =
  m_id :: string
  m_wrapId :: string
  m_pubkey :: string
  m_content :: string
  m_created_at :: int
  m_tags :: "string list list"

record DMReaction =
  x_emoji :: string
  x_pubkey :: string
  x_tags :: "string list list"

record Conversation =
  c_id :: string
  c_participants :: "string list"
  c_messages :: "DMMessage list"
  c_lastMessageAt :: int
  c_unreadCount :: nat
  c_reactions :: "string \<rightharpoonup> DMReaction list"

text \<open>
  The provider's state: the React state \<^verbatim>\<open>conversations\<close>, the ref \<^verbatim>\<open>seenRumorIds\<close>, and
  the three families of \<^verbatim>\<open>localStorage\<close> entries, each under its own key prefix
  (\<^verbatim>\<open>dm_cache_\<close> by wrap id, \<^verbatim>\<open>dm_lastseen_\<close> and \<^verbatim>\<open>dm_reactions_\<close> by conversation
  id). The prefixes differ, so the families are separate maps. An entry holds the value
  that was written: \<^verbatim>\<open>JSON.parse\<close> and \<^verbatim>\<open>parseInt\<close> read back what \<^verbatim>\<open>JSON.stringify\<close>
  and \<^verbatim>\<open>String\<close> wrote. \<open>storageFull\<close> says that \<^verbatim>\<open>localStorage.setItem\<close> throws (the
  quota is used up); every write of the provider sits in a \<^verbatim>\<open>try\<close> whose \<^verbatim>\<open>catch\<close> ignores
  the error, so a rejected write leaves the store as it was. The operations do not change
  \<open>storageFull\<close>; it may differ from one operation to the next.
  The updater functions handed to \<^verbatim>\<open>setConversations\<close> run in the order they are queued,
  so each operation below applies its update at once. The unread counter only ever
  starts at 0 or 1 and is incremented or reset, so it is a natural number.
\<close>

record dm_state =
  conversations :: "string \<rightharpoonup> Conversation"
  seenRumorIds :: "string set"
  rumorCache :: "string \<rightharpoonup> DMMessage"
  lastSeenStore :: "string \<rightharpoonup> int"
  reactionCache :: "string \<rightharpoonup> (string \<rightharpoonup> DMReaction list)"
  storageFull :: bool

definition getCachedRumor :: "dm_state \<Rightarrow> string \<Rightarrow> DMMessage option" where
  "getCachedRumor s wrapId = rumorCache s wrapId"

definition setCachedRumor :: "string \<Rightarrow> DMMessage \<Rightarrow> dm_state \<Rightarrow> dm_state" where
  "setCachedRumor wrapId msg s =
     (if storageFull s then s else s\<lparr>rumorCache := (rumorCache s)(wrapId \<mapsto> msg)\<rparr>)"

definition getLastSeen :: "dm_state \<Rightarrow> string \<Rightarrow> int" where
  "getLastSeen s conversationId =
     (case lastSeenStore s conversationId of None \<Rightarrow> 0 | Some ts \<Rightarrow> ts)"

definition setLastSeen :: "string \<Rightarrow> int \<Rightarrow> dm_state \<Rightarrow> dm_state" where
  "setLastSeen conversationId timestamp s =
     (if storageFull s then s
      else s\<lparr>lastSeenStore := (lastSeenStore s)(conversationId \<mapsto> timestamp)\<rparr>)"

text \<open>The values of the tags named \<open>name\<close>: \<^verbatim>\<open>tags.filter(t => t[0] === name).map(t => t[1])\<close>.\<close>

definition tag_values :: "string \<Rightarrow> string list list \<Rightarrow> jsstr list" where
  "tag_values name tgs = map (\<lambda>t. js_index t 1) (filter (\<lambda>t. js_index t 0 = Some name) tgs)"

text \<open>\<^verbatim>\<open>rumor.tags.find((t) => t[0] === "e")?.[1]\<close>\<close>

definition targetMessageId :: "Rumor \<Rightarrow> jsstr" where
  "targetMessageId rumor =
     (case find (\<lambda>t. js_index t 0 = Some ''e'') (r_tags rumor) of
        None \<Rightarrow> None
      | Some t \<Rightarrow> js_index t 1)"

definition same_reaction :: "DMReaction \<Rightarrow> DMReaction \<Rightarrow> bool" where
  "same_reaction reaction r \<longleftrightarrow> x_pubkey r = x_pubkey reaction \<and> x_emoji r = x_emoji reaction"

text \<open>
  The names every plain object inherits from \<^verbatim>\<open>Object.prototype\<close>. On an object used as a
  dictionary, \<^verbatim>\<open>obj[name]\<close> for such a name that is not an own key gives the inherited
  member, not \<^verbatim>\<open>undefined\<close>.
\<close>

definition objectPrototypeMembers :: "string list" where
  "objectPrototypeMembers =
     [''constructor'', ''__defineGetter__'', ''__defineSetter__'', ''hasOwnProperty'',
      ''__lookupGetter__'', ''__lookupSetter__'', ''isPrototypeOf'', ''propertyIsEnumerable'',
      ''toString'', ''valueOf'', ''__proto__'', ''toLocaleString'']"

text \<open>
  The \<^verbatim>\<open>try\<close> block of \<^verbatim>\<open>addReactionToConversation\<close> that persists the reaction (lines
  136--154). \<open>cached\<close> is the parsed object, or \<^verbatim>\<open>{}\<close>. When the target is not an own key
  but names an inherited member, \<^verbatim>\<open>reactions[targetMessageId]\<close> is that member, it has no
  \<^verbatim>\<open>some\<close>, the call throws and the \<^verbatim>\<open>catch\<close> ignores it. When \<^verbatim>\<open>setItem\<close> throws, the
  \<^verbatim>\<open>catch\<close> ignores that too. In both cases nothing is stored.
\<close>

definition cacheReaction :: "string \<Rightarrow> string \<Rightarrow> DMReaction \<Rightarrow> dm_state \<Rightarrow> dm_state" where
  "cacheReaction conversationId target reaction s =
     (let cached = (case reactionCache s conversationId of None \<Rightarrow> Map.empty | Some m \<Rightarrow> m)
      in if cached target = None \<and> target \<in> set objectPrototypeMembers then s
         else
           (let listed = (case cached target of None \<Rightarrow> [] | Some rs \<Rightarrow> rs)
            in if \<not> list_ex (same_reaction reaction) listed
               then (if storageFull s then s
                     else s\<lparr>reactionCache := (reactionCache s)
                            (conversationId \<mapsto> cached(target \<mapsto> listed @ [reaction]))\<rparr>)
               else s))"

definition addReactionToConversation :: "Rumor \<Rightarrow> string \<Rightarrow> dm_state \<Rightarrow> dm_state" where
  "addReactionToConversation rumor myPubkey s =
     (let conversationId = getConversationId (r_pubkey rumor) (tag_values ''p'' (r_tags rumor))
      in case targetMessageId rumor of
        None \<Rightarrow> s
      | Some target \<Rightarrow>
          if target = [] then s
          else
            (let reaction = \<lparr>x_emoji = r_content rumor, x_pubkey = r_pubkey rumor,
                   x_tags = filter (\<lambda>t. js_index t 0 = Some ''emoji'') (r_tags rumor)\<rparr>;
                 s1 = cacheReaction conversationId target reaction s
             in case conversations s1 conversationId of
               None \<Rightarrow> s1
             | Some existing \<Rightarrow>
                 (let existing_reactions =
                        (case c_reactions existing target of None \<Rightarrow> [] | Some rs \<Rightarrow> rs)
                  in if list_ex (same_reaction reaction) existing_reactions then s1
                     else s1\<lparr>conversations := (conversations s1)(conversationId \<mapsto>
                            existing\<lparr>c_reactions :=
                              (c_reactions existing)(target \<mapsto> existing_reactions @ [reaction])\<rparr>)\<rparr>)))"

definition addMessage :: "Rumor \<Rightarrow> string \<Rightarrow> string \<Rightarrow> dm_state \<Rightarrow> dm_state" where
  "addMessage rumor wrapId myPubkey s =
     (if r_id rumor \<in> seenRumorIds s then s
      else
        (let s0 = s\<lparr>seenRumorIds := insert (r_id rumor) (seenRumorIds s)\<rparr>
         in if r_kind rumor = 7 then addReactionToConversation rumor myPubkey s0
            else
              (let conversationId =
                     getConversationId (r_pubkey rumor) (tag_values ''p'' (r_tags rumor));
                   participants = js_split CHR ''+'' conversationId;
                   msg = \<lparr>m_id = r_id rumor, m_wrapId = wrapId, m_pubkey = r_pubkey rumor,
                          m_content = r_content rumor, m_created_at = r_created_at rumor,
                          m_tags = r_tags rumor\<rparr>;
                   s1 = setCachedRumor wrapId msg s0;
                   cachedReactions =
                     (case reactionCache s1 conversationId of None \<Rightarrow> Map.empty | Some m \<Rightarrow> m);
                   lastSeen = getLastSeen s1 conversationId;
                   isUnread = (r_pubkey rumor \<noteq> myPubkey \<and> r_created_at rumor > lastSeen)
               in case conversations s1 conversationId of
                 Some existing \<Rightarrow>
                   if list_ex (\<lambda>m. m_id m = r_id rumor) (c_messages existing) then s1
                   else s1\<lparr>conversations := (conversations s1)(conversationId \<mapsto>
                          existing\<lparr>c_messages := sort_key m_created_at (c_messages existing @ [msg]),
                            c_lastMessageAt := max (c_lastMessageAt existing) (r_created_at rumor),
                            c_unreadCount := c_unreadCount existing + (if isUnread then 1 else 0)\<rparr>)\<rparr>
               | None \<Rightarrow>
                   s1\<lparr>conversations := (conversations s1)(conversationId \<mapsto>
                      \<lparr>c_id = conversationId, c_participants = participants, c_messages = [msg],
                       c_lastMessageAt = r_created_at rumor,
                       c_unreadCount = (if isUnread then 1 else 0),
                       c_reactions = cachedReactions\<rparr>)\<rparr>)))"

text \<open>
  The subscription's \<^verbatim>\<open>onEvent\<close> handler. \<open>unwrapped\<close> is what
  \<^verbatim>\<open>await unwrapGiftWrap(event, privateKey)\<close> gives for this event. The cached message has
  no \<^verbatim>\<open>kind\<close> field, so \<^verbatim>\<open>(cached as any).kind || 14\<close> is 14.
\<close>

definition onEvent :: "Rumor option \<Rightarrow> Event \<Rightarrow> string \<Rightarrow> dm_state \<Rightarrow> dm_state" where
  "onEvent unwrapped event myPubkey s =
     (case getCachedRumor s (e_id event) of
        Some cached \<Rightarrow>
          (let fakeRumor = \<lparr>r_id = m_id cached, r_pubkey = m_pubkey cached,
                 r_created_at = m_created_at cached, r_kind = 14, r_tags = m_tags cached,
                 r_content = m_content cached\<rparr>
           in addMessage fakeRumor (e_id event) myPubkey s)
      | None \<Rightarrow>
          (case unwrapped of
             Some rumor \<Rightarrow> addMessage rumor (e_id event) myPubkey s
           | None \<Rightarrow> s))"

text \<open>\<^verbatim>\<open>markAsRead\<close>; \<open>now\<close> is \<^verbatim>\<open>Math.floor(Date.now() / 1000)\<close>.\<close>

definition markAsRead :: "int \<Rightarrow> string \<Rightarrow> dm_state \<Rightarrow> dm_state" where
  "markAsRead now conversationId s =
     (let s1 = setLastSeen conversationId now s
      in case conversations s1 conversationId of
        None \<Rightarrow> s1
      | Some conv \<Rightarrow>
          if c_unreadCount conv > 0
          then s1\<lparr>conversations := (conversations s1)(conversationId \<mapsto> conv\<lparr>c_unreadCount := 0\<rparr>)\<rparr>
          else s1)"

text \<open>What the state shows for a conversation, and how often a message id occurs in it.\<close>

definition unread_of :: "dm_state \<Rightarrow> string \<Rightarrow> nat" where
  "unread_of s conversationId =
     (case conversations s conversationId of None \<Rightarrow> 0 | Some conv \<Rightarrow> c_unreadCount conv)"

definition messages_of :: "dm_state \<Rightarrow> string \<Rightarrow> DMMessage list" where
  "messages_of s conversationId =
     (case conversations s conversationId of None \<Rightarrow> [] | Some conv \<Rightarrow> c_messages conv)"

definition conversation_of :: "Rumor \<Rightarrow> string" where
  "conversation_of rumor = getConversationId (r_pubkey rumor) (tag_values ''p'' (r_tags rumor))"

text \<open>
  The message \<^verbatim>\<open>addMessage\<close> builds from a rumor and a wrap id, and the rumor that
  \<^verbatim>\<open>onEvent\<close> hands to \<^verbatim>\<open>addMessage\<close> for a wire event: the cached one when the cache
  knows the event, else what unwrapping gave.
\<close>

definition message_of :: "Rumor \<Rightarrow> string \<Rightarrow> DMMessage" where
  "message_of rumor wrapId =
     \<lparr>m_id = r_id rumor, m_wrapId = wrapId, m_pubkey = r_pubkey rumor,
      m_content = r_content rumor, m_created_at = r_created_at rumor, m_tags = r_tags rumor\<rparr>"

definition rumor_for :: "Rumor option \<Rightarrow> Event \<Rightarrow> dm_state \<Rightarrow> Rumor option" where
  "rumor_for unwrapped event s =
     (case getCachedRumor s (e_id event) of
        Some cached \<Rightarrow>
          Some \<lparr>r_id = m_id cached, r_pubkey = m_pubkey cached,
                r_created_at = m_created_at cached, r_kind = 14, r_tags = m_tags cached,
                r_content = m_content cached\<rparr>
      | None \<Rightarrow> unwrapped)"






section \<open>The gift-wrap protocol (nip17.ts, lines 146--310 and 448--489)\<close>

text \<open>
  The functions of \<^verbatim>\<open>nostr-tools\<close>, \<^verbatim>\<open>@noble/hashes\<close> and \<^verbatim>\<open>JSON\<close> that the module calls
  are parameters of the model, gathered in one record. A function that can throw returns
  \<open>error + 'a\<close>. \<^verbatim>\<open>nip44.encrypt\<close> draws a random nonce, which is an argument here.
  \<open>json_rumor\<close> and \<open>json_event\<close> are \<^verbatim>\<open>JSON.stringify\<close> on a rumor and on an event;
  \<open>parse_event\<close> and \<open>parse_rumor\<close> are \<^verbatim>\<open>JSON.parse\<close> with the result read at the
  type the source gives it (\<open>Inl\<close> when the text is not valid JSON). \<open>rumorHash\<close> is
  \<^verbatim>\<open>bytesToHex(sha256(new TextEncoder().encode(JSON.stringify([0, pubkey, created_at, kind,
  tags, content]))))\<close> as a function of the five serialized fields.
\<close>

type_synonym bytes = "nat list"

record UnsignedEvent =
  u_kind :: int
  u_created_at :: int
  u_tags :: "string list list"
  u_content :: string
  u_pubkey :: string

record EventTemplate =
  t_kind :: int
  t_created_at :: int
  t_tags :: "string list list"
  t_content :: string

record nostr_lib =
  hexToBytes :: "string \<Rightarrow> error + bytes"
  getPublicKey :: "bytes \<Rightarrow> error + string"
  getConversationKey :: "bytes \<Rightarrow> string \<Rightarrow> error + bytes"
  nip44_encrypt :: "string \<Rightarrow> bytes \<Rightarrow> bytes \<Rightarrow> error + string"
  nip44_decrypt :: "string \<Rightarrow> bytes \<Rightarrow> error + string"
  finalizeEvent :: "UnsignedEvent \<Rightarrow> bytes \<Rightarrow> error + Event"
  json_rumor :: "Rumor \<Rightarrow> string"
  json_event :: "Event \<Rightarrow> string"
  parse_event :: "string \<Rightarrow> error + Event"
  parse_rumor :: "string \<Rightarrow> error + Rumor"
  rumorHash :: "string \<times> int \<times> int \<times> string list list \<times> string \<Rightarrow> string"

text \<open>
  The active signer, as the module uses it: \<^verbatim>\<open>getPublicKey\<close> and \<^verbatim>\<open>signEvent\<close> are
  promises that can reject; \<^verbatim>\<open>nip44Encrypt\<close> and \<^verbatim>\<open>nip44Decrypt\<close> are optional
  capabilities.
\<close>

record signer =
  s_getPublicKey :: "error + string"
  s_signEvent :: "EventTemplate \<Rightarrow> error + Event"
  s_nip44Encrypt :: "(string \<Rightarrow> string \<Rightarrow> error + string) option"
  s_nip44Decrypt :: "(string \<Rightarrow> string \<Rightarrow> error + string) option"

text \<open>
  What one wrap draws at random: the two results of \<^verbatim>\<open>randomTimestamp()\<close>, the key of
  \<^verbatim>\<open>generateSecretKey()\<close> and the nonces of the two local encryptions.
\<close>

record wrap_rand =
  seal_created_at :: int
  wrap_created_at :: int
  ephemeralKey :: bytes
  seal_nonce :: bytes
  wrap_nonce :: bytes

text \<open>Sequencing of steps that can throw: the first error ends the computation.\<close>

definition and_then :: "error + 'a \<Rightarrow> ('a \<Rightarrow> error + 'b) \<Rightarrow> error + 'b" where
  "and_then m f = (case m of Inl e \<Rightarrow> Inl e | Inr x \<Rightarrow> f x)"

text \<open>JavaScript truthiness of an optional string: present and not empty.\<close>

definition truthy :: "string option \<Rightarrow> bool" where
  "truthy x = (case x of None \<Rightarrow> False | Some v \<Rightarrow> v \<noteq> [])"

definition computeRumorId :: "nostr_lib \<Rightarrow> UnsignedEvent \<Rightarrow> string" where
  "computeRumorId L rumor =
     rumorHash L (u_pubkey rumor, u_created_at rumor, u_kind rumor, u_tags rumor, u_content rumor)"

text \<open>\<^verbatim>\<open>createRumor\<close>; \<open>now\<close> is \<^verbatim>\<open>Math.floor(Date.now() / 1000)\<close>.\<close>

definition createRumor ::
  "nostr_lib \<Rightarrow> int \<Rightarrow> string \<Rightarrow> string \<Rightarrow> string \<Rightarrow> string option \<Rightarrow> int \<Rightarrow>
   string list list \<Rightarrow> Rumor" where
  "createRumor L now senderPubkey recipientPubkey content replyToId kind extraTags =
     (let tags = [[''p'', recipientPubkey]]
            @ (case replyToId of
                 None \<Rightarrow> []
               | Some r \<Rightarrow> if r \<noteq> [] then [[''e'', r, [], ''reply'']] else [])
            @ extraTags;
          unsigned = \<lparr>u_kind = kind, u_created_at = now, u_tags = tags, u_content = content,
                      u_pubkey = senderPubkey\<rparr>
      in \<lparr>r_id = computeRumorId L unsigned, r_pubkey = senderPubkey, r_created_at = now,
          r_kind = kind, r_tags = tags, r_content = content\<rparr>)"

definition createGiftWrapLocal ::
  "nostr_lib \<Rightarrow> wrap_rand \<Rightarrow> bytes \<Rightarrow> Rumor \<Rightarrow> string \<Rightarrow> error + Event" where
  "createGiftWrapLocal L rnd senderPrivkey rumor recipientPubkey =
     (let rumorJson = json_rumor L rumor in
      and_then (getConversationKey L senderPrivkey recipientPubkey) (\<lambda>sealConvKey.
      and_then (nip44_encrypt L rumorJson sealConvKey (seal_nonce rnd)) (\<lambda>encryptedRumor.
      and_then (getPublicKey L senderPrivkey) (\<lambda>senderPubkey.
      and_then (finalizeEvent L
          \<lparr>u_kind = 13, u_created_at = seal_created_at rnd, u_tags = [],
           u_content = encryptedRumor, u_pubkey = senderPubkey\<rparr> senderPrivkey) (\<lambda>seal.
      and_then (getPublicKey L (ephemeralKey rnd)) (\<lambda>ephemeralPubkey.
      (let sealJson = json_event L seal in
      and_then (getConversationKey L (ephemeralKey rnd) recipientPubkey) (\<lambda>wrapConvKey.
      and_then (nip44_encrypt L sealJson wrapConvKey (wrap_nonce rnd)) (\<lambda>encryptedSeal.
      finalizeEvent L
          \<lparr>u_kind = 1059, u_created_at = wrap_created_at rnd, u_tags = [[''p'', recipientPubkey]],
           u_content = encryptedSeal, u_pubkey = ephemeralPubkey\<rparr> (ephemeralKey rnd))))))))))"

definition createGiftWrapForSigner ::
  "nostr_lib \<Rightarrow> wrap_rand \<Rightarrow> signer \<Rightarrow> Rumor \<Rightarrow> string \<Rightarrow> error + Event" where
  "createGiftWrapForSigner L rnd sg rumor recipientPubkey =
     (case s_nip44Encrypt sg of
        None \<Rightarrow> Inl (Error ''Signer does not support NIP-44 encryption'')
      | Some nip44Encrypt \<Rightarrow>
          (let rumorJson = json_rumor L rumor in
           and_then (nip44Encrypt recipientPubkey rumorJson) (\<lambda>encryptedRumor.
           and_then (s_signEvent sg
               \<lparr>t_kind = 13, t_created_at = seal_created_at rnd, t_tags = [],
                t_content = encryptedRumor\<rparr>) (\<lambda>seal.
           and_then (getPublicKey L (ephemeralKey rnd)) (\<lambda>ephemeralPubkey.
           (let sealJson = json_event L seal in
           and_then (getConversationKey L (ephemeralKey rnd) recipientPubkey) (\<lambda>conversationKey.
           and_then (nip44_encrypt L sealJson conversationKey (wrap_nonce rnd)) (\<lambda>encryptedSeal.
           finalizeEvent L
               \<lparr>u_kind = 1059, u_created_at = wrap_created_at rnd,
                u_tags = [[''p'', recipientPubkey]], u_content = encryptedSeal,
                u_pubkey = ephemeralPubkey\<rparr> (ephemeralKey rnd)))))))))"

definition unwrapGiftWrapLocal :: "nostr_lib \<Rightarrow> Event \<Rightarrow> bytes \<Rightarrow> error + Rumor" where
  "unwrapGiftWrapLocal L wrap recipientPrivkey =
     and_then (getConversationKey L recipientPrivkey (e_pubkey wrap)) (\<lambda>wrapConvKey.
     and_then (nip44_decrypt L (e_content wrap) wrapConvKey) (\<lambda>sealJson.
     and_then (parse_event L sealJson) (\<lambda>seal.
     and_then (getConversationKey L recipientPrivkey (e_pubkey seal)) (\<lambda>sealConvKey.
     and_then (nip44_decrypt L (e_content seal) sealConvKey) (\<lambda>rumorJson.
     parse_rumor L rumorJson)))))"

text \<open>
  \<^verbatim>\<open>unwrapGiftWrap\<close>: first the body of its \<^verbatim>\<open>try\<close> block, where \<open>Inl\<close> is a throw and
  \<open>Inr\<close> the value of a \<^verbatim>\<open>return\<close> (\<open>None\<close> is \<^verbatim>\<open>null\<close>), then the function, whose
  \<^verbatim>\<open>catch\<close> turns every throw into \<^verbatim>\<open>null\<close>. \<open>getSigner\<close> is the outcome of
  \<^verbatim>\<open>await signerManager.getSigner()\<close>.
\<close>

definition unwrapGiftWrap_body ::
  "nostr_lib \<Rightarrow> error + signer \<Rightarrow> Event \<Rightarrow> string option \<Rightarrow> error + Rumor option" where
  "unwrapGiftWrap_body L getSigner wrap privateKey =
     (if truthy privateKey then
        and_then (hexToBytes L (the privateKey)) (\<lambda>privkeyBytes.
        and_then (unwrapGiftWrapLocal L wrap privkeyBytes) (\<lambda>rumor.
        Inr (Some rumor)))
      else
        and_then getSigner (\<lambda>sg.
        case s_nip44Decrypt sg of
          None \<Rightarrow> Inl (Error ''Signer does not support NIP-44 decryption'')
        | Some nip44Decrypt \<Rightarrow>
            and_then (nip44Decrypt (e_pubkey wrap) (e_content wrap)) (\<lambda>sealJson.
            and_then (parse_event L sealJson) (\<lambda>seal.
            and_then (nip44Decrypt (e_pubkey seal) (e_content seal)) (\<lambda>rumorJson.
            and_then (parse_rumor L rumorJson) (\<lambda>rumor.
            if e_pubkey seal \<noteq> r_pubkey rumor then Inr None else Inr (Some rumor)))))))"

definition unwrapGiftWrap ::
  "nostr_lib \<Rightarrow> error + signer \<Rightarrow> Event \<Rightarrow> string option \<Rightarrow> Rumor option" where
  "unwrapGiftWrap L getSigner wrap privateKey =
     (case unwrapGiftWrap_body L getSigner wrap privateKey of
        Inl e \<Rightarrow> None
      | Inr result \<Rightarrow> result)"

text \<open>
  What the round trip needs from the library: the conversation key of a key pair's private
  half with the other pair's public half is the same from either side; decryption under the
  key of the encryption gives the plaintext back; a finalized event keeps the fields of its
  template and carries the public key of the signing key; \<^verbatim>\<open>JSON.parse\<close> reads back what
  \<^verbatim>\<open>JSON.stringify\<close> wrote.
\<close>

definition lib_contract :: "nostr_lib \<Rightarrow> bool" where
  "lib_contract L \<longleftrightarrow>
     (\<forall>a b A B. getPublicKey L a = Inr A \<and> getPublicKey L b = Inr B \<longrightarrow>
        getConversationKey L a B = getConversationKey L b A) \<and>
     (\<forall>p k n c. nip44_encrypt L p k n = Inr c \<longrightarrow> nip44_decrypt L c k = Inr p) \<and>
     (\<forall>u sk e. finalizeEvent L u sk = Inr e \<longrightarrow>
        e_kind e = u_kind u \<and> e_created_at e = u_created_at u \<and> e_tags e = u_tags u \<and>
        e_content e = u_content u \<and> getPublicKey L sk = Inr (e_pubkey e)) \<and>
     (\<forall>r. parse_rumor L (json_rumor L r) = Inr r) \<and>
     (\<forall>e. parse_event L (json_event L e) = Inr e)"

text \<open>
  A delegated signer that acts for the private key \<open>sk\<close>: its public key and the
  \<^verbatim>\<open>pubkey\<close> of what it signs are that key's, a signed event keeps the template's content,
  what it encrypts for a public key decrypts under the conversation key of \<open>sk\<close> with that
  public key, and its decryption is the library's under that conversation key.
\<close>

definition signer_contract :: "nostr_lib \<Rightarrow> bytes \<Rightarrow> signer \<Rightarrow> bool" where
  "signer_contract L sk sg \<longleftrightarrow>
     (\<forall>pk. s_getPublicKey sg = Inr pk \<longrightarrow> getPublicKey L sk = Inr pk) \<and>
     (\<forall>t e. s_signEvent sg t = Inr e \<longrightarrow>
        e_content e = t_content t \<and> getPublicKey L sk = Inr (e_pubkey e)) \<and>
     (\<forall>enc pk txt c. s_nip44Encrypt sg = Some enc \<and> enc pk txt = Inr c \<longrightarrow>
        (\<exists>k. getConversationKey L sk pk = Inr k \<and> nip44_decrypt L c k = Inr txt)) \<and>
     (\<forall>dec pk c. s_nip44Decrypt sg = Some dec \<longrightarrow>
        dec pk c = and_then (getConversationKey L sk pk) (nip44_decrypt L c))"

text \<open>
  The wrap \<open>w\<close> opens, for the recipient key \<open>rk\<close>, to the seal \<open>seal\<close> and through it to
  the rumor \<open>rumor\<close>.
\<close>

definition opens :: "nostr_lib \<Rightarrow> bytes \<Rightarrow> Event \<Rightarrow> Event \<Rightarrow> Rumor \<Rightarrow> bool" where
  "opens L rk w seal rumor \<longleftrightarrow>
     (\<exists>k1 k2. getConversationKey L rk (e_pubkey w) = Inr k1 \<and>
        nip44_decrypt L (e_content w) k1 = Inr (json_event L seal) \<and>
        getConversationKey L rk (e_pubkey seal) = Inr k2 \<and>
        nip44_decrypt L (e_content seal) k2 = Inr (json_rumor L rumor))"

section \<open>Sending (nip17.ts, lines 312--446, and the provider's send operations)\<close>

text \<open>
  A publish operation handed to the relay pool: one event for one relay. The promise that
  \<^verbatim>\<open>pool.publish\<close> returns for it is identified with the operation.
\<close>

record publish_op =
  op_relay :: jsstr
  op_event :: Event

text \<open>
  Modelled from the spec: \<^verbatim>\<open>pool.publish\<close> is the transport capability
  \<^verbatim>\<open>publish(relays, signedEvent)\<close>, which gives one completion promise per relay, in the
  order of the relay list. The pool itself is not among the sources.
\<close>

definition pool_publish :: "jsstr list \<Rightarrow> Event \<Rightarrow> publish_op list" where
  "pool_publish relays event = map (\<lambda>relay. \<lparr>op_relay = relay, op_event = event\<rparr>) relays"

record RelayPublish =
  rp_relay :: jsstr
  rp_promise :: publish_op

record wrap_dest =
  wd_event :: Event
  wd_relays :: "jsstr list"

record SendResult =
  sr_rumor :: Rumor
  sr_publishes :: "RelayPublish list"
  sr_retryWraps :: "wrap_dest list"

text \<open>
  What a send can change outside the conversation state: the relay resolver's caches and the
  publish operations issued so far.
\<close>

record world =
  w_relays :: relay_state
  w_published :: "publish_op list"

text \<open>
  What a send reads from its environment: the outcome of
  \<^verbatim>\<open>await signerManager.getSigner()\<close>, the clock, \<^verbatim>\<open>defaultRelays\<close> (imported from a
  module that is not among the sources), the network's answers to the two relay lookups,
  and the random draws of the two wraps.
\<close>

record send_env =
  env_getSigner :: "error + signer"
  env_now :: int
  env_defaultRelays :: "string list"
  env_recipientFetch :: fetch_outcome
  env_senderFetch :: fetch_outcome
  env_rand1 :: wrap_rand
  env_rand2 :: wrap_rand

text \<open>
  Lines 361--371: \<open>relayMap\<close> is the insertion-ordered \<^verbatim>\<open>Map\<close>, kept as the list of its
  values; \<open>relayMap_set\<close> is the body of the \<^verbatim>\<open>forEach\<close>.
\<close>

definition relayMap_set :: "RelayPublish list \<Rightarrow> jsstr \<times> publish_op \<Rightarrow> RelayPublish list" where
  "relayMap_set relayMap x =
     (case x of (relay, promise) \<Rightarrow>
        if relay \<in> set (map rp_relay relayMap) then relayMap
        else relayMap @ [\<lparr>rp_relay = relay, rp_promise = promise\<rparr>])"

fun publish_all ::
  "wrap_dest list \<Rightarrow> RelayPublish list \<times> publish_op list \<Rightarrow> RelayPublish list \<times> publish_op list" where
  "publish_all [] acc = acc"
| "publish_all (w # ws) (relayMap, issued) =
     (let promises = pool_publish (wd_relays w) (wd_event w)
      in publish_all ws
           (foldl relayMap_set relayMap (zip (wd_relays w) promises), issued @ promises))"

text \<open>
  The publish operations for a list of wraps: every wrap to every relay of its own list, in
  order.
\<close>

definition all_ops :: "wrap_dest list \<Rightarrow> publish_op list" where
  "all_ops ws = concat (map (\<lambda>d. pool_publish (wd_relays d) (wd_event d)) ws)"

text \<open>
  The tracked entry for a relay and an event, and the entries a send with the recipient's
  wrap \<open>a\<close> and the sender's own wrap \<open>b\<close> is to return: for every relay of the
  recipient's list the promise of \<open>a\<close>'s publish, then, for the relays of the sender's list
  that are not in the recipient's, the promise of \<open>b\<close>'s.
\<close>

definition tracked :: "Event \<Rightarrow> jsstr \<Rightarrow> RelayPublish" where
  "tracked event relay =
     \<lparr>rp_relay = relay, rp_promise = \<lparr>op_relay = relay, op_event = event\<rparr>\<rparr>"

definition first_promises :: "Event \<Rightarrow> jsstr list \<Rightarrow> Event \<Rightarrow> jsstr list \<Rightarrow> RelayPublish list" where
  "first_promises a recipientRelays b senderRelays =
     map (tracked a) recipientRelays
     @ map (tracked b) (filter (\<lambda>relay. relay \<notin> set recipientRelays) senderRelays)"

text \<open>
  The relay lookups of both send functions. \<^verbatim>\<open>Promise.all\<close> starts the recipient's lookup
  first; the two are run one after the other.
\<close>

definition lookup_inboxes ::
  "send_env \<Rightarrow> string \<Rightarrow> string \<Rightarrow> world \<Rightarrow> (jsstr list \<times> jsstr list) \<times> world" where
  "lookup_inboxes env recipientPubkey senderPubkey w =
     (let (recipientInbox, rs1) =
            fetchInboxRelays (env_recipientFetch env) recipientPubkey False (w_relays w);
          (senderInbox, rs2) = fetchInboxRelays (env_senderFetch env) senderPubkey True rs1
      in ((recipientInbox, senderInbox), w\<lparr>w_relays := rs2\<rparr>))"

definition wrapAndSendDM ::
  "nostr_lib \<Rightarrow> send_env \<Rightarrow> string \<Rightarrow> string \<Rightarrow> string option \<Rightarrow> string option \<Rightarrow> world \<Rightarrow>
   (error + SendResult) \<times> world" where
  "wrapAndSendDM L env recipientPubkey content privateKey replyToId w =
     (case env_getSigner env of
        Inl e \<Rightarrow> (Inl e, w)
      | Inr sg \<Rightarrow>
     (case s_getPublicKey sg of
        Inl e \<Rightarrow> (Inl e, w)
      | Inr senderPubkey \<Rightarrow>
     (let ((recipientInbox, senderInbox), w1) = lookup_inboxes env recipientPubkey senderPubkey w;
          rumor = createRumor L (env_now env) senderPubkey recipientPubkey content replyToId 14 [];
          recipientRelays = js_dedup (recipientInbox @ map Some (env_defaultRelays env));
          senderRelays = js_dedup (senderInbox @ map Some (env_defaultRelays env));
          wraps =
            (if truthy privateKey then
               and_then (hexToBytes L (the privateKey)) (\<lambda>privkeyBytes.
               and_then (createGiftWrapLocal L (env_rand1 env) privkeyBytes rumor recipientPubkey)
                 (\<lambda>wrapForRecipient.
               and_then (createGiftWrapLocal L (env_rand2 env) privkeyBytes rumor senderPubkey)
                 (\<lambda>wrapForSender.
               Inr [\<lparr>wd_event = wrapForRecipient, wd_relays = recipientRelays\<rparr>,
                    \<lparr>wd_event = wrapForSender, wd_relays = senderRelays\<rparr>])))
             else
               (case s_nip44Encrypt sg of
                  None \<Rightarrow> Inl (Error
                    ''Your signer does not support NIP-44 encryption, which is required for DMs.'')
                | Some enc \<Rightarrow>
                    and_then (createGiftWrapForSigner L (env_rand1 env) sg rumor recipientPubkey)
                      (\<lambda>recipientWrap.
                    and_then (createGiftWrapForSigner L (env_rand2 env) sg rumor senderPubkey)
                      (\<lambda>senderWrap.
                    Inr [\<lparr>wd_event = recipientWrap, wd_relays = recipientRelays\<rparr>,
                         \<lparr>wd_event = senderWrap, wd_relays = senderRelays\<rparr>]))))
      in case wraps of
           Inl e \<Rightarrow> (Inl e, w1)
         | Inr ws \<Rightarrow>
             (let (relayMap, issued) = publish_all ws ([], w_published w1)
              in (Inr \<lparr>sr_rumor = rumor, sr_publishes = relayMap, sr_retryWraps = ws\<rparr>,
                  w1\<lparr>w_published := issued\<rparr>)))))"

definition wrapAndSendReaction ::
  "nostr_lib \<Rightarrow> send_env \<Rightarrow> string \<Rightarrow> string \<Rightarrow> string \<Rightarrow> string option \<Rightarrow> world \<Rightarrow>
   (error + Rumor) \<times> world" where
  "wrapAndSendReaction L env recipientPubkey emoji targetId privateKey w =
     (case env_getSigner env of
        Inl e \<Rightarrow> (Inl e, w)
      | Inr sg \<Rightarrow>
     (case s_getPublicKey sg of
        Inl e \<Rightarrow> (Inl e, w)
      | Inr senderPubkey \<Rightarrow>
     (let ((recipientInbox, senderInbox), w1) = lookup_inboxes env recipientPubkey senderPubkey w;
          rumor = createRumor L (env_now env) senderPubkey recipientPubkey emoji None 7
                    [[''e'', targetId]];
          recipientRelays = js_dedup (recipientInbox @ map Some (env_defaultRelays env));
          senderRelays = js_dedup (senderInbox @ map Some (env_defaultRelays env))
      in if truthy privateKey then
           (case and_then (hexToBytes L (the privateKey)) (\<lambda>privkeyBytes.
                 and_then (createGiftWrapLocal L (env_rand1 env) privkeyBytes rumor recipientPubkey)
                   (\<lambda>wrapForRecipient.
                 and_then (createGiftWrapLocal L (env_rand2 env) privkeyBytes rumor senderPubkey)
                   (\<lambda>wrapForSender. Inr (wrapForRecipient, wrapForSender)))) of
              Inl e \<Rightarrow> (Inl e, w1)
            | Inr (wrapForRecipient, wrapForSender) \<Rightarrow>
                (Inr rumor,
                 w1\<lparr>w_published := w_published w1
                      @ pool_publish recipientRelays wrapForRecipient
                      @ pool_publish senderRelays wrapForSender\<rparr>))
         else
           (case s_nip44Encrypt sg of
              None \<Rightarrow> (Inl (Error
                ''Your signer does not support NIP-44 encryption, which is required for DM reactions.''),
                w1)
            | Some enc \<Rightarrow>
                (case createGiftWrapForSigner L (env_rand1 env) sg rumor recipientPubkey of
                   Inl e \<Rightarrow> (Inl e, w1)
                 | Inr recipientWrap \<Rightarrow>
                     (let w2 = w1\<lparr>w_published := w_published w1
                                 @ pool_publish recipientRelays recipientWrap\<rparr>
                      in case createGiftWrapForSigner L (env_rand2 env) sg rumor senderPubkey of
                           Inl e \<Rightarrow> (Inl e, w2)
                         | Inr senderWrap \<Rightarrow>
                             (Inr rumor,
                              w2\<lparr>w_published := w_published w2
                                   @ pool_publish senderRelays senderWrap\<rparr>)))))))"

text \<open>The logged-in user of the provider, and the provider's two send operations.\<close>

record user =
  user_pubkey :: string
  user_privateKey :: "string option"

record SendTracking =
  st_rumorId :: string
  st_publishes :: "RelayPublish list"
  st_retryWraps :: "wrap_dest list"

definition sendMessage ::
  "nostr_lib \<Rightarrow> send_env \<Rightarrow> user option \<Rightarrow> string \<Rightarrow> string \<Rightarrow> string option \<Rightarrow>
   dm_state \<times> world \<Rightarrow> (error + SendTracking) \<times> dm_state \<times> world" where
  "sendMessage L env usr recipientPubkey content replyToId sw =
     (case sw of (s, w) \<Rightarrow>
      case usr of
        None \<Rightarrow> (Inl (Error ''Must be logged in to send DMs''), s, w)
      | Some u \<Rightarrow>
          (case wrapAndSendDM L env recipientPubkey content (user_privateKey u) replyToId w of
             (Inl e, w') \<Rightarrow> (Inl e, s, w')
           | (Inr res, w') \<Rightarrow>
               (Inr \<lparr>st_rumorId = r_id (sr_rumor res), st_publishes = sr_publishes res,
                     st_retryWraps = sr_retryWraps res\<rparr>,
                addMessage (sr_rumor res) (''local_'' @ r_id (sr_rumor res)) (user_pubkey u) s,
                w')))"

definition sendReaction ::
  "nostr_lib \<Rightarrow> send_env \<Rightarrow> user option \<Rightarrow> string \<Rightarrow> string \<Rightarrow> string \<Rightarrow>
   dm_state \<times> world \<Rightarrow> (error + unit) \<times> dm_state \<times> world" where
  "sendReaction L env usr recipientPubkey emoji messageId sw =
     (case sw of (s, w) \<Rightarrow>
      case usr of
        None \<Rightarrow> (Inl (Error ''Must be logged in to react to DMs''), s, w)
      | Some u \<Rightarrow>
          (case wrapAndSendReaction L env recipientPubkey emoji messageId (user_privateKey u) w of
             (Inl e, w') \<Rightarrow> (Inl e, s, w')
           | (Inr rumor, w') \<Rightarrow>
               (Inr (),
                addMessage rumor (''local_reaction_'' @ r_id rumor) (user_pubkey u) s,
                w')))"

section \<open>Delivery tracking and retry (the chat view)\<close>

datatype RelayStatus = Pending | Sent | Failed | Timeout

text \<open>
  \<^verbatim>\<open>MsgSendStatus\<close>. The \<^verbatim>\<open>Record<string, RelayStatus>\<close> is a map on the own property
  keys of the object; a relay used as a property key is converted to a string,
  \<^verbatim>\<open>undefined\<close> to the string \<^verbatim>\<open>"undefined"\<close>.
\<close>

record MsgSendStatus =
  ms_relays :: "string \<rightharpoonup> RelayStatus"
  ms_retryWraps :: "wrap_dest list"

definition key_of :: "jsstr \<Rightarrow> string" where
  "key_of relay = (case relay of None \<Rightarrow> ''undefined'' | Some r \<Rightarrow> r)"

text \<open>
  A \<^verbatim>\<open>Promise.race\<close> between a publish promise and the 10 second timer, set up for one
  relay of one rumor; how it ends; and the status its handlers record.
\<close>

record race =
  race_rumorId :: string
  race_relay :: jsstr
  race_promise :: publish_op

datatype settlement = Resolved | Rejected | TimedOut

definition updateRelayStatus ::
  "string \<Rightarrow> jsstr \<Rightarrow> RelayStatus \<Rightarrow> (string \<rightharpoonup> MsgSendStatus) \<Rightarrow> (string \<rightharpoonup> MsgSendStatus)" where
  "updateRelayStatus rumorId relay status sendStatuses =
     (case sendStatuses rumorId of
        None \<Rightarrow> sendStatuses
      | Some s \<Rightarrow> sendStatuses(rumorId \<mapsto> s\<lparr>ms_relays := (ms_relays s)(key_of relay \<mapsto> status)\<rparr>))"

definition settle ::
  "race \<Rightarrow> settlement \<Rightarrow> (string \<rightharpoonup> MsgSendStatus) \<Rightarrow> (string \<rightharpoonup> MsgSendStatus)" where
  "settle rc how sendStatuses =
     updateRelayStatus (race_rumorId rc) (race_relay rc)
       (case how of Resolved \<Rightarrow> Sent | TimedOut \<Rightarrow> Timeout | Rejected \<Rightarrow> Failed)
       sendStatuses"

text \<open>
  \<^verbatim>\<open>initialRelays[relay] = "pending"\<close> on the plain object \<^verbatim>\<open>initialRelays\<close>: an assignment
  to the key \<^verbatim>\<open>__proto__\<close> goes to the inherited setter, which ignores a string, and
  creates no own key. (The computed key of \<^verbatim>\<open>updateRelayStatus\<close> and
  \<^verbatim>\<open>Object.fromEntries\<close> in \<^verbatim>\<open>handleRetry\<close> define own keys for every name.)
\<close>

definition assign_pending :: "(string \<rightharpoonup> RelayStatus) \<Rightarrow> RelayPublish \<Rightarrow> (string \<rightharpoonup> RelayStatus)" where
  "assign_pending m p =
     (if key_of (rp_relay p) = ''__proto__'' then m else m(key_of (rp_relay p) \<mapsto> Pending))"

definition trackRelays ::
  "SendTracking \<Rightarrow> (string \<rightharpoonup> MsgSendStatus) \<Rightarrow> (string \<rightharpoonup> MsgSendStatus) \<times> race list" where
  "trackRelays tracking sendStatuses =
     (let initialRelays = foldl assign_pending Map.empty (st_publishes tracking)
      in (sendStatuses(st_rumorId tracking \<mapsto>
            \<lparr>ms_relays = initialRelays, ms_retryWraps = st_retryWraps tracking\<rparr>),
          map (\<lambda>p. \<lparr>race_rumorId = st_rumorId tracking, race_relay = rp_relay p,
                     race_promise = rp_promise p\<rparr>) (st_publishes tracking)))"

text \<open>
  \<^verbatim>\<open>handleRetry\<close>. \<open>trackedRelays\<close> is a set of property keys (strings); an
  \<^verbatim>\<open>undefined\<close> relay is not a member of it.
\<close>

definition is_tracked :: "(string \<rightharpoonup> RelayStatus) \<Rightarrow> jsstr \<Rightarrow> bool" where
  "is_tracked relays relay = (case relay of None \<Rightarrow> False | Some r \<Rightarrow> relays r \<noteq> None)"

definition handleRetry ::
  "string \<Rightarrow> (string \<rightharpoonup> MsgSendStatus) \<times> publish_op list \<Rightarrow>
   (string \<rightharpoonup> MsgSendStatus) \<times> publish_op list \<times> race list" where
  "handleRetry rumorId x =
     (case x of (sendStatuses, issued) \<Rightarrow>
      case sendStatuses rumorId of
        None \<Rightarrow> (sendStatuses, issued, [])
      | Some status \<Rightarrow>
          (let resetRelays = (\<lambda>r. map_option (\<lambda>_. Pending) (ms_relays status r));
               sendStatuses' = sendStatuses(rumorId \<mapsto> status\<lparr>ms_relays := resetRelays\<rparr>);
               pubs = (\<lambda>w. pool_publish (wd_relays w) (wd_event w));
               races = (\<lambda>w. map (\<lambda>(relay, p). \<lparr>race_rumorId = rumorId, race_relay = relay,
                                              race_promise = p\<rparr>)
                              (filter (\<lambda>(relay, p). is_tracked (ms_relays status) relay)
                                 (zip (wd_relays w) (pubs w))))
           in (sendStatuses',
               issued @ concat (map pubs (ms_retryWraps status)),
               concat (map races (ms_retryWraps status)))))"

section \<open>A small executable library, to run the protocol on concrete inputs\<close>

text \<open>
  An instance of the library record that computes: texts are written with unary length
  prefixes, a public key is the written form of the private key, the conversation key of two
  keys is the sum of their bytes, and a ciphertext is the nonce, the key and the plaintext
  written one after the other, so that decryption under another key fails. It has none of
  the security of the real library; it meets the contract above and lets the definitions be
  evaluated.
\<close>

fun put_nat :: "nat \<Rightarrow> string" where
  "put_nat 0 = ''.''"
| "put_nat (Suc n) = CHR ''|'' # put_nat n"

fun get_nat :: "string \<Rightarrow> (nat \<times> string) option" where
  "get_nat [] = None"
| "get_nat (c # cs) =
     (if c = CHR ''.'' then Some (0, cs)
      else if c = CHR ''|'' then map_option (\<lambda>(n, rest). (Suc n, rest)) (get_nat cs)
      else None)"

definition put_int :: "int \<Rightarrow> string" where
  "put_int i = (if i < 0 then CHR ''-'' else CHR ''+'') # put_nat (nat \<bar>i\<bar>)"

definition get_int :: "string \<Rightarrow> (int \<times> string) option" where
  "get_int s =
     (case s of
        [] \<Rightarrow> None
      | c # cs \<Rightarrow>
          (case get_nat cs of
             None \<Rightarrow> None
           | Some (n, rest) \<Rightarrow>
               if c = CHR ''-'' then Some (- int n, rest)
               else if c = CHR ''+'' then Some (int n, rest)
               else None))"

definition put_str :: "string \<Rightarrow> string" where
  "put_str s = put_nat (length s) @ s"

definition get_str :: "string \<Rightarrow> (string \<times> string) option" where
  "get_str s =
     (case get_nat s of
        None \<Rightarrow> None
      | Some (n, rest) \<Rightarrow> if n \<le> length rest then Some (take n rest, drop n rest) else None)"

definition put_list :: "('a \<Rightarrow> string) \<Rightarrow> 'a list \<Rightarrow> string" where
  "put_list put xs = put_nat (length xs) @ concat (map put xs)"

fun get_items :: "(string \<Rightarrow> ('a \<times> string) option) \<Rightarrow> nat \<Rightarrow> string \<Rightarrow> ('a list \<times> string) option" where
  "get_items get 0 s = Some ([], s)"
| "get_items get (Suc n) s =
     (case get s of
        None \<Rightarrow> None
      | Some (x, rest) \<Rightarrow>
          (case get_items get n rest of
             None \<Rightarrow> None
           | Some (xs, rest') \<Rightarrow> Some (x # xs, rest')))"

definition get_list :: "(string \<Rightarrow> ('a \<times> string) option) \<Rightarrow> string \<Rightarrow> ('a list \<times> string) option" where
  "get_list get s = (case get_nat s of None \<Rightarrow> None | Some (n, rest) \<Rightarrow> get_items get n rest)"

definition put_tags :: "string list list \<Rightarrow> string" where
  "put_tags = put_list (put_list put_str)"

definition get_tags :: "string \<Rightarrow> (string list list \<times> string) option" where
  "get_tags = get_list (get_list get_str)"

definition put_rumor :: "Rumor \<Rightarrow> string" where
  "put_rumor r = put_str (r_id r) @ put_str (r_pubkey r) @ put_int (r_created_at r)
     @ put_int (r_kind r) @ put_tags (r_tags r) @ put_str (r_content r)"

definition get_rumor :: "string \<Rightarrow> (Rumor \<times> string) option" where
  "get_rumor s =
     (case get_str s of None \<Rightarrow> None | Some (i, s1) \<Rightarrow>
      case get_str s1 of None \<Rightarrow> None | Some (pk, s2) \<Rightarrow>
      case get_int s2 of None \<Rightarrow> None | Some (at, s3) \<Rightarrow>
      case get_int s3 of None \<Rightarrow> None | Some (k, s4) \<Rightarrow>
      case get_tags s4 of None \<Rightarrow> None | Some (tgs, s5) \<Rightarrow>
      case get_str s5 of None \<Rightarrow> None | Some (c, s6) \<Rightarrow>
        Some (\<lparr>r_id = i, r_pubkey = pk, r_created_at = at, r_kind = k, r_tags = tgs,
               r_content = c\<rparr>, s6))"

definition put_event :: "Event \<Rightarrow> string" where
  "put_event e = put_str (e_id e) @ put_str (e_pubkey e) @ put_int (e_created_at e)
     @ put_int (e_kind e) @ put_tags (e_tags e) @ put_str (e_content e) @ put_str (e_sig e)"

definition get_event :: "string \<Rightarrow> (Event \<times> string) option" where
  "get_event s =
     (case get_str s of None \<Rightarrow> None | Some (i, s1) \<Rightarrow>
      case get_str s1 of None \<Rightarrow> None | Some (pk, s2) \<Rightarrow>
      case get_int s2 of None \<Rightarrow> None | Some (at, s3) \<Rightarrow>
      case get_int s3 of None \<Rightarrow> None | Some (k, s4) \<Rightarrow>
      case get_tags s4 of None \<Rightarrow> None | Some (tgs, s5) \<Rightarrow>
      case get_str s5 of None \<Rightarrow> None | Some (c, s6) \<Rightarrow>
      case get_str s6 of None \<Rightarrow> None | Some (sg, s7) \<Rightarrow>
        Some (\<lparr>e_id = i, e_pubkey = pk, e_created_at = at, e_kind = k, e_tags = tgs,
               e_content = c, e_sig = sg\<rparr>, s7))"

definition hex_val :: "char \<Rightarrow> nat option" where
  "hex_val c =
     (if c \<in> set ''0123456789'' then Some (of_char c - 48)
      else if c \<in> set ''abcdef'' then Some (of_char c - 87)
      else if c \<in> set ''ABCDEF'' then Some (of_char c - 55)
      else None)"

fun toy_hexToBytes :: "string \<Rightarrow> error + bytes" where
  "toy_hexToBytes [] = Inr []"
| "toy_hexToBytes [c] = Inl (Error ''hex string expected, got unpadded hex'')"
| "toy_hexToBytes (a # b # cs) =
     (case (hex_val a, hex_val b) of
        (Some x, Some y) \<Rightarrow> and_then (toy_hexToBytes cs) (\<lambda>rest. Inr ((16 * x + y) # rest))
      | _ \<Rightarrow> Inl (Error ''hex string expected, got non-hex character''))"

definition toy_pub :: "bytes \<Rightarrow> string" where
  "toy_pub k = put_list put_nat k"

definition toy_conv :: "bytes \<Rightarrow> string \<Rightarrow> error + bytes" where
  "toy_conv a B =
     (case get_list get_nat B of
        Some (b, []) \<Rightarrow> Inr [sum_list a + sum_list b]
      | _ \<Rightarrow> Inl (Error ''invalid public key''))"

definition toy_encrypt :: "string \<Rightarrow> bytes \<Rightarrow> bytes \<Rightarrow> error + string" where
  "toy_encrypt p k n = Inr (put_list put_nat n @ put_list put_nat k @ p)"

definition toy_decrypt :: "string \<Rightarrow> bytes \<Rightarrow> error + string" where
  "toy_decrypt c k =
     (case get_list get_nat c of
        None \<Rightarrow> Inl (Error ''invalid payload'')
      | Some (n, c1) \<Rightarrow>
          (case get_list get_nat c1 of
             None \<Rightarrow> Inl (Error ''invalid payload'')
           | Some (k', p) \<Rightarrow> if k' = k then Inr p else Inl (Error ''invalid MAC'')))"

definition toy_hash :: "string \<times> int \<times> int \<times> string list list \<times> string \<Rightarrow> string" where
  "toy_hash x = (case x of (pk, at, k, tgs, c) \<Rightarrow> ''#'' @ put_nat (length c))"

definition toy_finalize :: "UnsignedEvent \<Rightarrow> bytes \<Rightarrow> error + Event" where
  "toy_finalize u sk = Inr \<lparr>e_id = toy_hash (toy_pub sk, u_created_at u, u_kind u, u_tags u, u_content u),
     e_pubkey = toy_pub sk, e_created_at = u_created_at u, e_kind = u_kind u, e_tags = u_tags u,
     e_content = u_content u, e_sig = ''sig''\<rparr>"

definition toy_parse_event :: "string \<Rightarrow> error + Event" where
  "toy_parse_event s =
     (case get_event s of Some (e, []) \<Rightarrow> Inr e | _ \<Rightarrow> Inl (Error ''SyntaxError''))"

definition toy_parse_rumor :: "string \<Rightarrow> error + Rumor" where
  "toy_parse_rumor s =
     (case get_rumor s of Some (r, []) \<Rightarrow> Inr r | _ \<Rightarrow> Inl (Error ''SyntaxError''))"

definition toy_lib :: nostr_lib where
  "toy_lib = \<lparr>hexToBytes = toy_hexToBytes, getPublicKey = (\<lambda>k. Inr (toy_pub k)),
     getConversationKey = toy_conv, nip44_encrypt = toy_encrypt, nip44_decrypt = toy_decrypt,
     finalizeEvent = toy_finalize, json_rumor = put_rumor, json_event = put_event,
     parse_event = toy_parse_event, parse_rumor = toy_parse_rumor, rumorHash = toy_hash\<rparr>"

definition toy_signer :: "bytes \<Rightarrow> signer" where
  "toy_signer sk = \<lparr>s_getPublicKey = Inr (toy_pub sk),
     s_signEvent = (\<lambda>t. toy_finalize \<lparr>u_kind = t_kind t, u_created_at = t_created_at t,
        u_tags = t_tags t, u_content = t_content t, u_pubkey = toy_pub sk\<rparr> sk),
     s_nip44Encrypt = Some (\<lambda>pk txt. and_then (toy_conv sk pk) (\<lambda>k. toy_encrypt txt k [0])),
     s_nip44Decrypt = Some (\<lambda>pk c. and_then (toy_conv sk pk) (toy_decrypt c))\<rparr>"

text \<open>
  Three key holders and a forged rumor: it names \<open>alice\<close> as its author, and \<open>mallory\<close>
  seals and wraps it for \<open>bob\<close> with her own key. \<open>forged_seal\<close> and \<open>forged_wrap\<close> are
  what \<^verbatim>\<open>createGiftWrapLocal\<close> produces for her. \<open>garbage_wrap\<close> carries a content that
  is no ciphertext, \<open>nonjson_wrap\<close> one that decrypts to a text that is not JSON.
\<close>

definition alice_key :: bytes where "alice_key = [1]"

definition bob_key :: bytes where "bob_key = [2]"

definition mallory_key :: bytes where "mallory_key = [3]"

definition ex_rand :: wrap_rand where
  "ex_rand = \<lparr>seal_created_at = 4, wrap_created_at = 3, ephemeralKey = [7], seal_nonce = [5],
     wrap_nonce = [6]\<rparr>"

definition forged_rumor :: Rumor where
  "forged_rumor = \<lparr>r_id = ''f1'', r_pubkey = toy_pub alice_key, r_created_at = 5, r_kind = 14,
     r_tags = [[''p'', toy_pub bob_key]], r_content = ''pay''\<rparr>"

definition forged_seal :: Event where
  "forged_seal = \<lparr>e_id = toy_hash (toy_pub mallory_key, 4, 13, [],
        put_list put_nat [5] @ put_list put_nat [5] @ put_rumor forged_rumor),
     e_pubkey = toy_pub mallory_key, e_created_at = 4, e_kind = 13, e_tags = [],
     e_content = put_list put_nat [5] @ put_list put_nat [5] @ put_rumor forged_rumor,
     e_sig = ''sig''\<rparr>"

definition forged_wrap :: Event where
  "forged_wrap = \<lparr>e_id = toy_hash (toy_pub [7], 3, 1059, [[''p'', toy_pub bob_key]],
        put_list put_nat [6] @ put_list put_nat [9] @ put_event forged_seal),
     e_pubkey = toy_pub [7], e_created_at = 3, e_kind = 1059,
     e_tags = [[''p'', toy_pub bob_key]],
     e_content = put_list put_nat [6] @ put_list put_nat [9] @ put_event forged_seal,
     e_sig = ''sig''\<rparr>"

definition garbage_wrap :: Event where
  "garbage_wrap = \<lparr>e_id = ''w2'', e_pubkey = toy_pub [7], e_created_at = 3, e_kind = 1059,
     e_tags = [[''p'', toy_pub bob_key]], e_content = ''garbage'', e_sig = ''sig''\<rparr>"

definition nonjson_wrap :: Event where
  "nonjson_wrap = \<lparr>e_id = ''w3'', e_pubkey = toy_pub [7], e_created_at = 3, e_kind = 1059,
     e_tags = [[''p'', toy_pub bob_key]],
     e_content = put_list put_nat [6] @ put_list put_nat [9] @ ''hello'', e_sig = ''sig''\<rparr>"

definition honest_rumor :: Rumor where
  "honest_rumor = createRumor toy_lib 5 (toy_pub alice_key) (toy_pub bob_key) ''hi'' None 14 []"

text \<open>
  A send by \<open>alice\<close> to \<open>bob\<close> with no relay list known for either, one default relay, and
  the wraps it produces; the same environment with a signer that cannot encrypt; and a
  tracking record in which one relay has confirmed and two have not.
\<close>

definition ex_env :: send_env where
  "ex_env = \<lparr>env_getSigner = Inr (toy_signer alice_key), env_now = 5,
     env_defaultRelays = [''wss://d.example/''], env_recipientFetch = Inr None,
     env_senderFetch = Inr None, env_rand1 = ex_rand,
     env_rand2 = ex_rand\<lparr>ephemeralKey := [8]\<rparr>\<rparr>"

definition ex_world :: world where
  "ex_world = \<lparr>w_relays = \<lparr>inboxRelayCache = Map.empty, relayStore = Map.empty,
       relayStoreFull = False\<rparr>,
     w_published = []\<rparr>"

definition ex_wrap_rcpt :: Event where
  "ex_wrap_rcpt = projr (createGiftWrapLocal toy_lib ex_rand alice_key honest_rumor (toy_pub bob_key))"

definition ex_wrap_self :: Event where
  "ex_wrap_self = projr (createGiftWrapLocal toy_lib (ex_rand\<lparr>ephemeralKey := [8]\<rparr>) alice_key
     honest_rumor (toy_pub alice_key))"

definition ex_statuses :: "string \<rightharpoonup> MsgSendStatus" where
  "ex_statuses = [''r1'' \<mapsto> \<lparr>ms_relays = [''wss://a.example/'' \<mapsto> Failed,
       ''wss://b.example/'' \<mapsto> Sent, ''wss://c.example/'' \<mapsto> Timeout],
     ms_retryWraps = [\<lparr>wd_event = ex_wrap_rcpt,
         wd_relays = [Some ''wss://a.example/'', Some ''wss://b.example/'']\<rparr>,
       \<lparr>wd_event = ex_wrap_self,
         wd_relays = [Some ''wss://c.example/'', Some ''wss://b.example/'']\<rparr>]\<rparr>]"

definition ex_env_nocap :: send_env where
  "ex_env_nocap = ex_env\<lparr>env_getSigner := Inr ((toy_signer alice_key)\<lparr>s_nip44Encrypt := None\<rparr>)\<rparr>"

text \<open>A concrete conversation between \<open>alice\<close> and the local user \<open>bob\<close>.\<close>

definition dm_empty :: dm_state where
  "dm_empty = \<lparr>conversations = Map.empty, seenRumorIds = {}, rumorCache = Map.empty,
     lastSeenStore = Map.empty, reactionCache = Map.empty, storageFull = False\<rparr>"

definition ex_dm :: Rumor where
  "ex_dm = \<lparr>r_id = ''r1'', r_pubkey = ''alice'', r_created_at = 100, r_kind = 14,
     r_tags = [[''p'', ''bob'']], r_content = ''hi''\<rparr>"



definition ex_live :: dm_state where
  "ex_live = addMessage ex_dm ''wrap_rcpt'' ''bob'' dm_empty"

text \<open>Two wire events, the recipient's copy and the sender's own copy of one message.\<close>

definition ex_wire1 :: Event where
  "ex_wire1 = \<lparr>e_id = ''wrap_rcpt'', e_pubkey = ''eph1'', e_created_at = 90, e_kind = 1059,
     e_tags = [[''p'', ''bob'']], e_content = ''c1'', e_sig = ''sig''\<rparr>"

definition ex_wire2 :: Event where
  "ex_wire2 = \<lparr>e_id = ''wrap_self'', e_pubkey = ''eph2'', e_created_at = 95, e_kind = 1059,
     e_tags = [[''p'', ''bob'']], e_content = ''c2'', e_sig = ''sig''\<rparr>"

text \<open>A concrete session, used to exercise the resolver.\<close>

definition ex_relay_event :: Event where
  "ex_relay_event = \<lparr>e_id = ''e1'', e_pubkey = ''bob'', e_created_at = 7, e_kind = 10050,
     e_tags = [[''relay'', ''wss://inbox.example/''], [''relay'']], e_content = [],
     e_sig = ''sig''\<rparr>"

definition ex_relay_state :: relay_state where
  "ex_relay_state = \<lparr>inboxRelayCache = Map.empty,
     relayStore = [''alice'' \<mapsto> \<lparr>cr_relays = [Some ''wss://a.example/''], cr_created_at = 5\<rparr>],
     relayStoreFull = False\<rparr>"

definition ex_calls :: "(fetch_outcome \<times> string \<times> bool) list" where
  "ex_calls = [(Inr None, ''alice'', True), (Inl (Error ''offline''), ''carol'', False),
     (Inr (Some ex_relay_event), ''bob'', False), (Inr None, ''bob'', False)]"

section \<open>Properties of the inbox relay resolver\<close>

text \<open>
  The part of \<^verbatim>\<open>fetchRelaysFromNetwork\<close> that runs once the network has answered returns
  a non-empty list and keeps every cached list non-empty, in whatever state it finds the
  caches: also when other calls have run between the request and its answer.
\<close>

lemma fetchRelaysFromNetwork_nonempty:
  assumes "relays_nonempty s"
  shows "fst (fetchRelaysFromNetwork outcome pubkey knownAt persist s) \<noteq> []"
    and "relays_nonempty (snd (fetchRelaysFromNetwork outcome pubkey knownAt persist s))"
  using assms
  by (auto simp: fetchRelaysFromNetwork_def relays_nonempty_def writeRelayStore_def
      fallback_def Let_def split: sum.splits option.splits if_splits)

lemma fetchInboxRelays_nonempty:
  assumes "relays_nonempty s"
  shows "fst (fetchInboxRelays outcome pubkey persist s) \<noteq> []"
    and "relays_nonempty (snd (fetchInboxRelays outcome pubkey persist s))"
proof -
  show "fst (fetchInboxRelays outcome pubkey persist s) \<noteq> []"
  proof (cases "inboxRelayCache s pubkey")
    case (Some hit)
    with assms show ?thesis
      by (auto simp: fetchInboxRelays_def relays_nonempty_def)
  next
    case None
    show ?thesis
    proof (cases "if persist then readRelayStore s pubkey else None")
      case (Some stored)
      then have "relayStore s pubkey = Some stored"
        by (auto simp: readRelayStore_def split: if_splits)
      with assms have "cr_relays stored \<noteq> []"
        by (auto simp: relays_nonempty_def)
      with None Some show ?thesis
        by (simp add: fetchInboxRelays_def Let_def)
    next
      case none: None
      with None show ?thesis
        using fetchRelaysFromNetwork_nonempty(1)[OF assms]
        by (simp add: fetchInboxRelays_def)
    qed
  qed
next
  show "relays_nonempty (snd (fetchInboxRelays outcome pubkey persist s))"
  proof (cases "inboxRelayCache s pubkey")
    case (Some hit)
    with assms show ?thesis
      by (simp add: fetchInboxRelays_def)
  next
    case None
    show ?thesis
    proof (cases "if persist then readRelayStore s pubkey else None")
      case (Some stored)
      then have st: "relayStore s pubkey = Some stored"
        by (auto simp: readRelayStore_def split: if_splits)
      with assms have ne: "cr_relays stored \<noteq> []"
        by (auto simp: relays_nonempty_def)
      let ?s1 = "s\<lparr>inboxRelayCache := (inboxRelayCache s)(pubkey \<mapsto> cr_relays stored)\<rparr>"
      from assms ne have "relays_nonempty ?s1"
        by (auto simp: relays_nonempty_def)
      then have "relays_nonempty
          (snd (fetchRelaysFromNetwork outcome pubkey (cr_created_at stored) persist ?s1))"
        by (rule fetchRelaysFromNetwork_nonempty(2))
      with None Some show ?thesis
        by (simp add: fetchInboxRelays_def Let_def)
    next
      case none: None
      with None show ?thesis
        using fetchRelaysFromNetwork_nonempty(2)[OF assms]
        by (simp add: fetchInboxRelays_def)
    qed
  qed
qed

lemma fetch_session_nonempty:
  "relays_nonempty s \<Longrightarrow> rs \<in> set (fetch_session calls s) \<Longrightarrow> rs \<noteq> []"
proof (induction calls arbitrary: s)
  case Nil
  then show ?case by simp
next
  case (Cons call calls)
  obtain outcome pubkey persist where call: "call = (outcome, pubkey, persist)"
    by (cases call) auto
  obtain r s' where step: "fetchInboxRelays outcome pubkey persist s = (r, s')"
    by (cases "fetchInboxRelays outcome pubkey persist s") auto
  from fetchInboxRelays_nonempty[OF Cons.prems(1), of outcome pubkey persist] step
  have r: "r \<noteq> []" and s': "relays_nonempty s'"
    by simp_all
  from Cons.prems(2) call step have "rs = r \<or> rs \<in> set (fetch_session calls s')"
    by simp
  with r Cons.IH[OF s'] show ?case
    by blast
qed

text \<open>
  Claim C10. In a session that starts with the in-memory cache empty and a persisted store
  whose entries all hold at least one relay (as every entry written by this module does),
  every call of \<^verbatim>\<open>fetchInboxRelays\<close>, for every pubkey, either value of \<^verbatim>\<open>persist\<close> and
  every answer of the network, returns a non-empty relay list.
\<close>

theorem fetchInboxRelays_never_empty:
  assumes "inboxRelayCache s = Map.empty"
    and "\<forall>pk c. relayStore s pk = Some c \<longrightarrow> cr_relays c \<noteq> []"
  shows "\<forall>rs \<in> set (fetch_session calls s). rs \<noteq> []"
proof -
  from assms have "relays_nonempty s"
    by (simp add: relays_nonempty_def)
  then show ?thesis
    using fetch_session_nonempty by blast
qed

theorem fetchInboxRelays_never_empty_witness:
  "fetch_session ex_calls ex_relay_state =
     [[Some ''wss://a.example/''], [Some ''wss://relay.damus.io/''],
      [Some ''wss://inbox.example/'', None], [Some ''wss://inbox.example/'', None]]
   \<and> [] \<notin> set (fetch_session ex_calls ex_relay_state)"
proof -
  have empty: "inboxRelayCache ex_relay_state = Map.empty"
    by (simp add: ex_relay_state_def)
  have stored: "\<forall>pk c. relayStore ex_relay_state pk = Some c \<longrightarrow> cr_relays c \<noteq> []"
    by (auto simp: ex_relay_state_def split: if_splits)
  have run: "fetch_session ex_calls ex_relay_state =
     [[Some ''wss://a.example/''], [Some ''wss://relay.damus.io/''],
      [Some ''wss://inbox.example/'', None], [Some ''wss://inbox.example/'', None]]"
    by (simp add: ex_calls_def ex_relay_state_def ex_relay_event_def fetchInboxRelays_def
        fetchRelaysFromNetwork_def readRelayStore_def writeRelayStore_def relay_tags_def
        js_index_def fallback_def Let_def)
  from fetchInboxRelays_never_empty[OF empty stored, of ex_calls] run show ?thesis
    by auto
qed

section \<open>Properties of the conversation state\<close>

lemma addMessage_seen: "r_id r \<in> seenRumorIds s \<Longrightarrow> addMessage r w me s = s"
  by (simp add: addMessage_def)

lemma cacheReaction_fields:
  "seenRumorIds (cacheReaction cid t rx s) = seenRumorIds s"
  "rumorCache (cacheReaction cid t rx s) = rumorCache s"
  "lastSeenStore (cacheReaction cid t rx s) = lastSeenStore s"
  "conversations (cacheReaction cid t rx s) = conversations s"
  "storageFull (cacheReaction cid t rx s) = storageFull s"
  by (simp_all add: cacheReaction_def Let_def)

lemma addReaction_fields:
  "seenRumorIds (addReactionToConversation r me s) = seenRumorIds s"
  "rumorCache (addReactionToConversation r me s) = rumorCache s"
  "lastSeenStore (addReactionToConversation r me s) = lastSeenStore s"
  "storageFull (addReactionToConversation r me s) = storageFull s"
  by (simp_all add: addReactionToConversation_def cacheReaction_fields Let_def split: option.splits)

lemma addMessage_reaction:
  "r_id r \<notin> seenRumorIds s \<Longrightarrow> r_kind r = 7 \<Longrightarrow>
   addMessage r w me s =
     addReactionToConversation r me (s\<lparr>seenRumorIds := insert (r_id r) (seenRumorIds s)\<rparr>)"
  by (simp add: addMessage_def)

lemma addMessage_dm_fields:
  assumes "r_id r \<notin> seenRumorIds s" "r_kind r \<noteq> 7"
  shows "seenRumorIds (addMessage r w me s) = insert (r_id r) (seenRumorIds s)"
    and "rumorCache (addMessage r w me s) =
           (if storageFull s then rumorCache s else (rumorCache s)(w \<mapsto> message_of r w))"
    and "lastSeenStore (addMessage r w me s) = lastSeenStore s"
    and "reactionCache (addMessage r w me s) = reactionCache s"
    and "storageFull (addMessage r w me s) = storageFull s"
  using assms
  by (simp_all add: addMessage_def setCachedRumor_def message_of_def Let_def split: option.splits)

lemma addMessage_storageFull: "storageFull (addMessage r w me s) = storageFull s"
proof (cases "r_id r \<in> seenRumorIds s")
  case True
  then show ?thesis by (simp add: addMessage_seen)
next
  case False
  then show ?thesis
    by (cases "r_kind r = 7")
      (simp_all add: addMessage_reaction addReaction_fields addMessage_dm_fields)
qed

lemma addMessage_marks_seen: "r_id r \<in> seenRumorIds (addMessage r w me s)"
proof (cases "r_id r \<in> seenRumorIds s")
  case True
  then show ?thesis by (simp add: addMessage_seen)
next
  case False
  then show ?thesis
    by (cases "r_kind r = 7")
      (simp_all add: addMessage_reaction addReaction_fields addMessage_dm_fields)
qed

lemma addMessage_twice:
  "r_id r2 = r_id r1 \<Longrightarrow>
   addMessage r2 w2 me ((addMessage r1 w1 me s)\<lparr>storageFull := b\<rparr>) =
     (addMessage r1 w1 me s)\<lparr>storageFull := b\<rparr>"
  using addMessage_marks_seen[of r1 w1 me s] by (simp add: addMessage_seen)

lemma addMessage_dm_conversations:
  assumes "r_id r \<notin> seenRumorIds s" "r_kind r \<noteq> 7"
  shows "conversations (addMessage r w me s) =
     (let cid = conversation_of r;
          isUnread = (r_pubkey r \<noteq> me \<and> r_created_at r > getLastSeen s cid)
      in case conversations s cid of
           Some existing \<Rightarrow>
             if list_ex (\<lambda>m. m_id m = r_id r) (c_messages existing) then conversations s
             else (conversations s)(cid \<mapsto>
                    existing\<lparr>c_messages := sort_key m_created_at (c_messages existing @ [message_of r w]),
                      c_lastMessageAt := max (c_lastMessageAt existing) (r_created_at r),
                      c_unreadCount := c_unreadCount existing + (if isUnread then 1 else 0)\<rparr>)
         | None \<Rightarrow>
             (conversations s)(cid \<mapsto>
                \<lparr>c_id = cid, c_participants = js_split CHR ''+'' cid, c_messages = [message_of r w],
                 c_lastMessageAt = r_created_at r,
                 c_unreadCount = (if isUnread then 1 else 0),
                 c_reactions = (case reactionCache s cid of None \<Rightarrow> Map.empty | Some m \<Rightarrow> m)\<rparr>))"
  using assms
  by (simp add: addMessage_def setCachedRumor_def getLastSeen_def conversation_of_def message_of_def
      Let_def split: option.splits)

lemma addMessage_messages:
  assumes "r_kind r \<noteq> 7" "r_id r \<notin> seenRumorIds s"
    "\<forall>m \<in> set (messages_of s (conversation_of r)). m_id m \<noteq> r_id r"
  shows "messages_of (addMessage r w me s) (conversation_of r) =
           sort_key m_created_at (messages_of s (conversation_of r) @ [message_of r w])"
proof (cases "conversations s (conversation_of r)")
  case None
  then show ?thesis
    by (simp add: messages_of_def addMessage_dm_conversations[OF assms(2,1)] Let_def)
next
  case (Some existing)
  with assms(3) have "\<not> list_ex (\<lambda>m. m_id m = r_id r) (c_messages existing)"
    by (auto simp: messages_of_def list_ex_iff)
  with Some show ?thesis
    by (simp add: messages_of_def addMessage_dm_conversations[OF assms(2,1)] Let_def)
qed

lemma filter_sort_key: "filter P (sort_key f xs) = sort_key f (filter P xs)"
  by (induction xs) (auto simp: filter_insort filter_insort_triv)

lemma one_message:
  assumes "\<forall>m \<in> set ms. m_id m \<noteq> i" "m_id msg = i"
  shows "length (filter (\<lambda>m. m_id m = i) (sort_key m_created_at (ms @ [msg]))) = 1"
proof -
  from assms(1) have "filter (\<lambda>m. m_id m = i) ms = []"
    by (auto simp: filter_empty_conv)
  with assms(2) show ?thesis
    by (simp add: filter_sort_key)
qed

lemma onEvent_rumor_for:
  "onEvent u e me s =
     (case rumor_for u e s of None \<Rightarrow> s | Some r \<Rightarrow> addMessage r (e_id e) me s)"
  by (simp add: onEvent_def rumor_for_def Let_def split: option.splits)

lemma rumor_for_storageFull: "rumor_for u e (s\<lparr>storageFull := b\<rparr>) = rumor_for u e s"
  by (simp add: rumor_for_def getCachedRumor_def)

lemma rumor_for_kind:
  "rumor_for u e s = Some r \<Longrightarrow> getCachedRumor s (e_id e) \<noteq> None \<Longrightarrow> r_kind r = 14"
  by (auto simp: rumor_for_def split: option.splits)

text \<open>After a delivery, the same event yields a rumor with the same id again.\<close>

lemma rumor_for_again:
  assumes "rumor_for u e s = Some r"
  shows "\<exists>r'. rumor_for u e ((onEvent u e me s)\<lparr>storageFull := b\<rparr>) = Some r' \<and> r_id r' = r_id r"
proof -
  let ?s1 = "addMessage r (e_id e) me s"
  have s1: "onEvent u e me s = ?s1"
    using assms by (simp add: onEvent_rumor_for)
  show ?thesis
  proof (cases "r_id r \<in> seenRumorIds s \<or> r_kind r = 7")
    case True
    then have "rumorCache ?s1 = rumorCache s"
      by (cases "r_id r \<in> seenRumorIds s")
        (auto simp: addMessage_seen addMessage_reaction addReaction_fields)
    then have "rumor_for u e (?s1\<lparr>storageFull := b\<rparr>) = rumor_for u e s"
      by (simp add: rumor_for_def getCachedRumor_def)
    with assms s1 show ?thesis by simp
  next
    case False
    then have cache: "rumorCache ?s1 =
        (if storageFull s then rumorCache s else (rumorCache s)(e_id e \<mapsto> message_of r (e_id e)))"
      by (simp add: addMessage_dm_fields)
    show ?thesis
    proof (cases "storageFull s")
      case True
      with cache have "rumor_for u e (?s1\<lparr>storageFull := b\<rparr>) = rumor_for u e s"
        by (simp add: rumor_for_def getCachedRumor_def)
      with assms s1 show ?thesis by simp
    next
      case full: False
      with cache show ?thesis
        by (simp add: s1 rumor_for_def getCachedRumor_def message_of_def)
    qed
  qed
qed

lemma onEvent_second:
  assumes "rumor_for u2 e2 s1 = Some r2" "r_id r2 \<in> seenRumorIds s1"
  shows "onEvent u2 e2 me s1 = s1"
  using assms by (simp add: onEvent_rumor_for addMessage_seen)

lemma onEvent_twice:
  "onEvent u e me ((onEvent u e me s)\<lparr>storageFull := b\<rparr>) = (onEvent u e me s)\<lparr>storageFull := b\<rparr>"
proof (cases "rumor_for u e s")
  case None
  then show ?thesis
    by (simp add: onEvent_rumor_for rumor_for_storageFull)
next
  case (Some r)
  from rumor_for_again[OF Some, where me = me and b = b] obtain r'
    where r': "rumor_for u e ((onEvent u e me s)\<lparr>storageFull := b\<rparr>) = Some r'" "r_id r' = r_id r"
    by blast
  have "r_id r \<in> seenRumorIds (onEvent u e me s)"
    using Some addMessage_marks_seen[of r "e_id e" me s] by (simp add: onEvent_rumor_for)
  with r' show ?thesis
    by (intro onEvent_second[OF r'(1)]) simp
qed

lemma addMessage_other_conversations:
  assumes "cid \<noteq> conversation_of r"
  shows "conversations (addMessage r w me s) cid = conversations s cid"
proof (cases "r_id r \<in> seenRumorIds s")
  case True
  then show ?thesis by (simp add: addMessage_seen)
next
  case False
  show ?thesis
  proof (cases "r_kind r = 7")
    case True
    with False assms show ?thesis
      by (simp add: addMessage_reaction addReactionToConversation_def cacheReaction_fields
          conversation_of_def Let_def split: option.splits)
  next
    case dm: False
    with False assms show ?thesis
      by (simp add: addMessage_dm_conversations Let_def split: option.splits)
  qed
qed

lemma state_views_storageFull:
  "messages_of (s\<lparr>storageFull := b\<rparr>) cid = messages_of s cid"
  "unread_of (s\<lparr>storageFull := b\<rparr>) cid = unread_of s cid"
  by (simp_all add: messages_of_def unread_of_def)

lemma two_deliveries:
  assumes first: "rumor_for u1 e1 s = Some r1"
    and dm: "r_kind r1 \<noteq> 7"
    and fresh: "r_id r1 \<notin> seenRumorIds s"
      "\<forall>m \<in> set (messages_of s (conversation_of r1)). m_id m \<noteq> r_id r1"
    and second: "rumor_for u2 e2 ((onEvent u1 e1 me s)\<lparr>storageFull := b\<rparr>) = Some r2"
      "r_id r2 = r_id r1"
  shows "messages_of (onEvent u2 e2 me ((onEvent u1 e1 me s)\<lparr>storageFull := b\<rparr>))
           (conversation_of r1) =
         sort_key m_created_at (messages_of s (conversation_of r1) @ [message_of r1 (e_id e1)])"
    and "length (filter (\<lambda>m. m_id m = r_id r1)
           (messages_of (onEvent u2 e2 me ((onEvent u1 e1 me s)\<lparr>storageFull := b\<rparr>))
              (conversation_of r1))) = 1"
    and "cid \<noteq> conversation_of r1 \<Longrightarrow>
         conversations (onEvent u2 e2 me ((onEvent u1 e1 me s)\<lparr>storageFull := b\<rparr>)) cid =
           conversations s cid"
proof -
  let ?s1 = "onEvent u1 e1 me s"
  have s1: "?s1 = addMessage r1 (e_id e1) me s"
    using first by (simp add: onEvent_rumor_for)
  have "r_id r2 \<in> seenRumorIds (?s1\<lparr>storageFull := b\<rparr>)"
    using second(2) addMessage_marks_seen[of r1 "e_id e1" me s] by (simp add: s1)
  from onEvent_second[OF second(1) this]
  have s2: "onEvent u2 e2 me (?s1\<lparr>storageFull := b\<rparr>) = ?s1\<lparr>storageFull := b\<rparr>" .
  show m: "messages_of (onEvent u2 e2 me (?s1\<lparr>storageFull := b\<rparr>)) (conversation_of r1) =
         sort_key m_created_at (messages_of s (conversation_of r1) @ [message_of r1 (e_id e1)])"
    unfolding s2 state_views_storageFull
    by (simp only: s1 addMessage_messages[OF dm fresh])
  show "length (filter (\<lambda>m. m_id m = r_id r1)
           (messages_of (onEvent u2 e2 me (?s1\<lparr>storageFull := b\<rparr>)) (conversation_of r1))) = 1"
    unfolding m by (rule one_message[OF fresh(2)]) (simp add: message_of_def)
  show "cid \<noteq> conversation_of r1 \<Longrightarrow>
         conversations (onEvent u2 e2 me (?s1\<lparr>storageFull := b\<rparr>)) cid = conversations s cid"
    unfolding s2 by (simp add: s1 addMessage_other_conversations)
qed

lemma ex_live_eq:
  "ex_live = \<lparr>conversations = [''alice+bob'' \<mapsto>
       \<lparr>c_id = ''alice+bob'', c_participants = [''alice'', ''bob''],
        c_messages = [\<lparr>m_id = ''r1'', m_wrapId = ''wrap_rcpt'', m_pubkey = ''alice'',
          m_content = ''hi'', m_created_at = 100, m_tags = [[''p'', ''bob'']]\<rparr>],
        c_lastMessageAt = 100, c_unreadCount = 1, c_reactions = Map.empty\<rparr>],
     seenRumorIds = {''r1''},
     rumorCache = [''wrap_rcpt'' \<mapsto> \<lparr>m_id = ''r1'', m_wrapId = ''wrap_rcpt'', m_pubkey = ''alice'',
          m_content = ''hi'', m_created_at = 100, m_tags = [[''p'', ''bob'']]\<rparr>],
     lastSeenStore = Map.empty, reactionCache = Map.empty, storageFull = False\<rparr>"
proof -
  have conv: "getConversationId ''alice'' [Some ''bob''] = ''alice+bob''"
    by code_simp
  have split: "js_split CHR ''+'' ''alice+bob'' = [''alice'', ''bob'']"
    by code_simp
  show ?thesis
    unfolding ex_live_def
    by (simp add: addMessage_def ex_dm_def dm_empty_def tag_values_def js_index_def conv split
        setCachedRumor_def getLastSeen_def Let_def)
qed

text \<open>
  Claim C4. Ingestion is idempotent with respect to the rumor id. Handling a wire event a
  second time leaves the state as the first handling left it, and so does ingesting a
  second rumor with the id of the first, whatever wrap carried it and whether or not the
  store accepts writes in between. When the rumor that \<^verbatim>\<open>onEvent\<close> takes from a wire
  event is a direct message whose id is new (not in the seen set, on no message of its
  conversation), then after that event has been handled twice, and likewise after a second
  wire event that yields a rumor with the same id has been handled, the conversation holds
  the messages it held before and the one message built from the first delivery, in time
  order: exactly one message has that id, and no other conversation has changed.
\<close>

theorem ingestion_idempotent:
  "onEvent u e me ((onEvent u e me s)\<lparr>storageFull := b\<rparr>) = (onEvent u e me s)\<lparr>storageFull := b\<rparr>
   \<and> (r_id r2 = r_id r1 \<longrightarrow>
        addMessage r2 w2 me ((addMessage r1 w1 me s)\<lparr>storageFull := b\<rparr>) =
          (addMessage r1 w1 me s)\<lparr>storageFull := b\<rparr>)
   \<and> (rumor_for u e s = Some r \<and> r_kind r \<noteq> 7 \<and> r_id r \<notin> seenRumorIds s
        \<and> (\<forall>m \<in> set (messages_of s (conversation_of r)). m_id m \<noteq> r_id r) \<longrightarrow>
        messages_of (onEvent u e me ((onEvent u e me s)\<lparr>storageFull := b\<rparr>)) (conversation_of r) =
          sort_key m_created_at (messages_of s (conversation_of r) @ [message_of r (e_id e)])
        \<and> length (filter (\<lambda>m. m_id m = r_id r)
            (messages_of (onEvent u e me ((onEvent u e me s)\<lparr>storageFull := b\<rparr>))
               (conversation_of r))) = 1
        \<and> (cid \<noteq> conversation_of r \<longrightarrow>
             conversations (onEvent u e me ((onEvent u e me s)\<lparr>storageFull := b\<rparr>)) cid =
               conversations s cid))
   \<and> (rumor_for u1 e1 s = Some r1 \<and> r_kind r1 \<noteq> 7 \<and> r_id r1 \<notin> seenRumorIds s
        \<and> (\<forall>m \<in> set (messages_of s (conversation_of r1)). m_id m \<noteq> r_id r1)
        \<and> rumor_for u2 e2 ((onEvent u1 e1 me s)\<lparr>storageFull := b\<rparr>) = Some r2
        \<and> r_id r2 = r_id r1 \<longrightarrow>
        messages_of (onEvent u2 e2 me ((onEvent u1 e1 me s)\<lparr>storageFull := b\<rparr>))
            (conversation_of r1) =
          sort_key m_created_at (messages_of s (conversation_of r1) @ [message_of r1 (e_id e1)])
        \<and> length (filter (\<lambda>m. m_id m = r_id r1)
            (messages_of (onEvent u2 e2 me ((onEvent u1 e1 me s)\<lparr>storageFull := b\<rparr>))
               (conversation_of r1))) = 1
        \<and> (cid \<noteq> conversation_of r1 \<longrightarrow>
             conversations (onEvent u2 e2 me ((onEvent u1 e1 me s)\<lparr>storageFull := b\<rparr>)) cid =
               conversations s cid))"
proof (intro conjI impI)
  show "onEvent u e me ((onEvent u e me s)\<lparr>storageFull := b\<rparr>) = (onEvent u e me s)\<lparr>storageFull := b\<rparr>"
    by (rule onEvent_twice)
next
  assume "r_id r2 = r_id r1"
  then show "addMessage r2 w2 me ((addMessage r1 w1 me s)\<lparr>storageFull := b\<rparr>) =
          (addMessage r1 w1 me s)\<lparr>storageFull := b\<rparr>"
    by (rule addMessage_twice)
next
  assume a: "rumor_for u e s = Some r \<and> r_kind r \<noteq> 7 \<and> r_id r \<notin> seenRumorIds s
        \<and> (\<forall>m \<in> set (messages_of s (conversation_of r)). m_id m \<noteq> r_id r)"
  then obtain r' where r': "rumor_for u e ((onEvent u e me s)\<lparr>storageFull := b\<rparr>) = Some r'"
      "r_id r' = r_id r"
    using rumor_for_again[where u = u and e = e and s = s and r = r and me = me and b = b] by blast
  from a have h: "rumor_for u e s = Some r" "r_kind r \<noteq> 7" "r_id r \<notin> seenRumorIds s"
    "\<forall>m \<in> set (messages_of s (conversation_of r)). m_id m \<noteq> r_id r"
    by simp_all
  note d = two_deliveries[OF h r']
  show "messages_of (onEvent u e me ((onEvent u e me s)\<lparr>storageFull := b\<rparr>)) (conversation_of r) =
          sort_key m_created_at (messages_of s (conversation_of r) @ [message_of r (e_id e)])"
    by (rule d(1))
  show "length (filter (\<lambda>m. m_id m = r_id r)
            (messages_of (onEvent u e me ((onEvent u e me s)\<lparr>storageFull := b\<rparr>))
               (conversation_of r))) = 1"
    by (rule d(2))
  assume "cid \<noteq> conversation_of r"
  then show "conversations (onEvent u e me ((onEvent u e me s)\<lparr>storageFull := b\<rparr>)) cid =
               conversations s cid"
    by (rule d(3))
next
  assume a: "rumor_for u1 e1 s = Some r1 \<and> r_kind r1 \<noteq> 7 \<and> r_id r1 \<notin> seenRumorIds s
        \<and> (\<forall>m \<in> set (messages_of s (conversation_of r1)). m_id m \<noteq> r_id r1)
        \<and> rumor_for u2 e2 ((onEvent u1 e1 me s)\<lparr>storageFull := b\<rparr>) = Some r2
        \<and> r_id r2 = r_id r1"
  then have h: "rumor_for u1 e1 s = Some r1" "r_kind r1 \<noteq> 7" "r_id r1 \<notin> seenRumorIds s"
    "\<forall>m \<in> set (messages_of s (conversation_of r1)). m_id m \<noteq> r_id r1"
    "rumor_for u2 e2 ((onEvent u1 e1 me s)\<lparr>storageFull := b\<rparr>) = Some r2" "r_id r2 = r_id r1"
    by simp_all
  note d = two_deliveries[OF h]
  show "messages_of (onEvent u2 e2 me ((onEvent u1 e1 me s)\<lparr>storageFull := b\<rparr>))
            (conversation_of r1) =
          sort_key m_created_at (messages_of s (conversation_of r1) @ [message_of r1 (e_id e1)])"
    by (rule d(1))
  show "length (filter (\<lambda>m. m_id m = r_id r1)
            (messages_of (onEvent u2 e2 me ((onEvent u1 e1 me s)\<lparr>storageFull := b\<rparr>))
               (conversation_of r1))) = 1"
    by (rule d(2))
  assume "cid \<noteq> conversation_of r1"
  then show "conversations (onEvent u2 e2 me ((onEvent u1 e1 me s)\<lparr>storageFull := b\<rparr>)) cid =
               conversations s cid"
    by (rule d(3))
qed

theorem ingestion_idempotent_witness:
  "messages_of (onEvent (Some ex_dm) ex_wire1 ''bob''
      ((onEvent (Some ex_dm) ex_wire1 ''bob'' dm_empty)\<lparr>storageFull := False\<rparr>)) ''alice+bob'' =
     [\<lparr>m_id = ''r1'', m_wrapId = ''wrap_rcpt'', m_pubkey = ''alice'', m_content = ''hi'',
       m_created_at = 100, m_tags = [[''p'', ''bob'']]\<rparr>]
   \<and> messages_of (onEvent (Some ex_dm) ex_wire2 ''bob''
      ((onEvent (Some ex_dm) ex_wire1 ''bob'' dm_empty)\<lparr>storageFull := False\<rparr>)) ''alice+bob'' =
     [\<lparr>m_id = ''r1'', m_wrapId = ''wrap_rcpt'', m_pubkey = ''alice'', m_content = ''hi'',
       m_created_at = 100, m_tags = [[''p'', ''bob'']]\<rparr>]
   \<and> conversations (onEvent (Some ex_dm) ex_wire2 ''bob''
      ((onEvent (Some ex_dm) ex_wire1 ''bob'' dm_empty)\<lparr>storageFull := False\<rparr>)) ''bob+carol'' = None
   \<and> onEvent (Some ex_dm) ex_wire1 ''bob''
      ((onEvent (Some ex_dm) ex_wire1 ''bob'' dm_empty)\<lparr>storageFull := False\<rparr>) = ex_live"
proof -
  have conv: "conversation_of ex_dm = ''alice+bob''"
    by code_simp
  have first: "rumor_for (Some ex_dm) ex_wire1 dm_empty = Some ex_dm"
    by (simp add: rumor_for_def getCachedRumor_def dm_empty_def)
  have wrap: "e_id ex_wire1 = ''wrap_rcpt''"
    by (simp add: ex_wire1_def)
  have s1: "onEvent (Some ex_dm) ex_wire1 ''bob'' dm_empty = ex_live"
    by (simp add: onEvent_rumor_for first ex_live_def wrap)
  have full: "ex_live\<lparr>storageFull := False\<rparr> = ex_live"
    by (simp add: ex_live_eq)
  have second: "rumor_for (Some ex_dm) ex_wire2 ex_live = Some ex_dm"
    by (simp add: rumor_for_def getCachedRumor_def ex_live_eq ex_wire2_def)
  have pre: "r_kind ex_dm \<noteq> 7" "r_id ex_dm \<notin> seenRumorIds dm_empty"
    "\<forall>m \<in> set (messages_of dm_empty (conversation_of ex_dm)). m_id m \<noteq> r_id ex_dm"
    "messages_of dm_empty ''alice+bob'' = []" "conversations dm_empty ''bob+carol'' = None"
    by (simp_all add: ex_dm_def dm_empty_def messages_of_def)
  have msg: "message_of ex_dm (e_id ex_wire1) =
     \<lparr>m_id = ''r1'', m_wrapId = ''wrap_rcpt'', m_pubkey = ''alice'', m_content = ''hi'',
       m_created_at = 100, m_tags = [[''p'', ''bob'']]\<rparr>"
    by (simp add: message_of_def ex_dm_def wrap)
  have live: "messages_of ex_live ''alice+bob'' =
     [\<lparr>m_id = ''r1'', m_wrapId = ''wrap_rcpt'', m_pubkey = ''alice'', m_content = ''hi'',
       m_created_at = 100, m_tags = [[''p'', ''bob'']]\<rparr>]"
    by (simp add: ex_live_eq messages_of_def)
  from ingestion_idempotent[where u = "Some ex_dm" and e = ex_wire1 and me = "''bob''"
      and s = dm_empty and b = False and r = ex_dm and ?u1.0 = "Some ex_dm" and ?e1.0 = ex_wire1
      and ?u2.0 = "Some ex_dm" and ?e2.0 = ex_wire2 and ?r1.0 = ex_dm and ?r2.0 = ex_dm
      and cid = "''bob+carol''" and ?w1.0 = "''wrap_rcpt''" and ?w2.0 = "''wrap_self''"]
    first second pre msg live
  show ?thesis
    by (simp add: s1 full conv)
qed

lemma addMessage_unread:
  assumes "r_id r \<notin> seenRumorIds s" "r_kind r \<noteq> 7"
    "\<not> list_ex (\<lambda>m. m_id m = r_id r) (messages_of s (conversation_of r))"
  shows "unread_of (addMessage r w me s) (conversation_of r) =
     unread_of s (conversation_of r) +
       (if r_pubkey r \<noteq> me \<and> r_created_at r > getLastSeen s (conversation_of r) then 1 else 0)"
  using assms(3)
  by (simp add: unread_of_def messages_of_def addMessage_dm_conversations[OF assms(1,2)] Let_def
       split: option.splits)

lemma addMessage_unread_other:
  "cid \<noteq> conversation_of r \<Longrightarrow> unread_of (addMessage r w me s) cid = unread_of s cid"
  by (simp add: unread_of_def addMessage_other_conversations)

lemma addMessage_lastSeen: "lastSeenStore (addMessage r w me s) = lastSeenStore s"
proof (cases "r_id r \<in> seenRumorIds s")
  case True
  then show ?thesis by (simp add: addMessage_seen)
next
  case False
  then show ?thesis
    by (cases "r_kind r = 7")
      (simp_all add: addMessage_reaction addReaction_fields addMessage_dm_fields)
qed

lemma zero_unread: "c_unreadCount conv = 0 \<Longrightarrow> conv\<lparr>c_unreadCount := 0\<rparr> = conv"
  by (cases conv) simp

lemma markAsRead_lastSeen:
  "getLastSeen (markAsRead now cid s) cid = (if storageFull s then getLastSeen s cid else now)"
  "other \<noteq> cid \<Longrightarrow> getLastSeen (markAsRead now cid s) other = getLastSeen s other"
  by (simp_all add: markAsRead_def setLastSeen_def getLastSeen_def Let_def split: option.splits)

lemma markAsRead_conversations:
  "conversations (markAsRead now cid s) cid =
     map_option (\<lambda>conv. conv\<lparr>c_unreadCount := 0\<rparr>) (conversations s cid)"
  "other \<noteq> cid \<Longrightarrow> conversations (markAsRead now cid s) other = conversations s other"
  by (simp_all add: markAsRead_def setLastSeen_def Let_def zero_unread split: option.splits)

lemma markAsRead_unread: "unread_of (markAsRead now cid s) cid = 0"
  by (simp add: unread_of_def markAsRead_conversations split: option.splits)

lemma markAsRead_kept:
  "seenRumorIds (markAsRead now cid s) = seenRumorIds s"
  "rumorCache (markAsRead now cid s) = rumorCache s"
  "reactionCache (markAsRead now cid s) = reactionCache s"
  by (simp_all add: markAsRead_def setLastSeen_def Let_def split: option.splits)

text \<open>
  Claim C6, amended. Ingesting a direct message that is new to the state raises the unread
  counter of its conversation by exactly 1 when its author is not the local user and its
  \<^verbatim>\<open>created_at\<close> is strictly greater than the persisted last-seen timestamp of that
  conversation, and leaves the counter as it was otherwise; no other conversation's counter
  changes, and ingestion changes no last-seen timestamp. \<^verbatim>\<open>markAsRead\<close> keeps the
  conversation and sets its unread counter to 0; it stores the current time as the
  conversation's last-seen timestamp when the store accepts the write, and leaves the
  timestamp as it was when the write is rejected; other conversations and their
  timestamps stay as they were.
\<close>

theorem unread_accounting:
  "(r_id r \<notin> seenRumorIds s \<and> r_kind r \<noteq> 7
      \<and> \<not> list_ex (\<lambda>m. m_id m = r_id r) (messages_of s (conversation_of r)) \<longrightarrow>
      unread_of (addMessage r w me s) (conversation_of r) =
        unread_of s (conversation_of r) +
          (if r_pubkey r \<noteq> me \<and> r_created_at r > getLastSeen s (conversation_of r)
           then 1 else 0))
   \<and> (cid \<noteq> conversation_of r \<longrightarrow> unread_of (addMessage r w me s) cid = unread_of s cid)
   \<and> getLastSeen (addMessage r w me s) cid = getLastSeen s cid
   \<and> getLastSeen (markAsRead now cid s) cid = (if storageFull s then getLastSeen s cid else now)
   \<and> conversations (markAsRead now cid s) cid =
       map_option (\<lambda>conv. conv\<lparr>c_unreadCount := 0\<rparr>) (conversations s cid)
   \<and> unread_of (markAsRead now cid s) cid = 0
   \<and> (other \<noteq> cid \<longrightarrow>
        conversations (markAsRead now cid s) other = conversations s other
        \<and> getLastSeen (markAsRead now cid s) other = getLastSeen s other)"
proof -
  have ls: "getLastSeen (addMessage r w me s) cid = getLastSeen s cid"
    by (simp add: getLastSeen_def addMessage_lastSeen)
  show ?thesis
    using addMessage_unread[of r s w me] addMessage_unread_other[of cid r w me s]
      markAsRead_lastSeen(1)[of now cid s] markAsRead_lastSeen(2)[of other cid now s]
      markAsRead_conversations(1)[of now cid s] markAsRead_conversations(2)[of other cid now s]
      markAsRead_unread[of now cid s] ls
    by blast
qed

theorem unread_accounting_witness:
  "unread_of dm_empty ''alice+bob'' = 0
   \<and> unread_of (addMessage ex_dm ''wrap_rcpt'' ''bob'' dm_empty) ''alice+bob'' = 1
   \<and> unread_of (addMessage ex_dm ''wrap_rcpt'' ''bob'' dm_empty) ''bob+carol'' = 0
   \<and> getLastSeen (markAsRead 200 ''alice+bob'' ex_live) ''alice+bob'' = 200
   \<and> unread_of ex_live ''alice+bob'' = 1
   \<and> unread_of (markAsRead 200 ''alice+bob'' ex_live) ''alice+bob'' = 0
   \<and> messages_of (markAsRead 200 ''alice+bob'' ex_live) ''alice+bob'' =
       messages_of ex_live ''alice+bob''
   \<and> conversations (markAsRead 200 ''alice+bob'' ex_live) ''bob+carol'' = None"
proof -
  have conv: "conversation_of ex_dm = ''alice+bob''"
    by code_simp
  have pre: "r_id ex_dm \<notin> seenRumorIds dm_empty \<and> r_kind ex_dm \<noteq> 7
      \<and> \<not> list_ex (\<lambda>m. m_id m = r_id ex_dm) (messages_of dm_empty (conversation_of ex_dm))"
    by (simp add: ex_dm_def dm_empty_def messages_of_def)
  have other: "''bob+carol'' \<noteq> conversation_of ex_dm" "''bob+carol'' \<noteq> ''alice+bob''"
    by (simp_all add: conv)
  have before: "unread_of dm_empty ''alice+bob'' = 0" "getLastSeen dm_empty ''alice+bob'' = 0"
    "unread_of dm_empty ''bob+carol'' = 0"
    by (simp_all add: unread_of_def getLastSeen_def dm_empty_def)
  have author: "r_pubkey ex_dm \<noteq> ''bob''" "r_created_at ex_dm > 0"
    by (simp_all add: ex_dm_def)
  have live: "unread_of ex_live ''alice+bob'' = 1" "\<not> storageFull ex_live"
    "conversations ex_live ''bob+carol'' = None"
    by (simp_all add: ex_live_eq unread_of_def)
  have msgs: "messages_of (markAsRead 200 ''alice+bob'' ex_live) ''alice+bob'' =
       messages_of ex_live ''alice+bob''"
    using unread_accounting[where s = ex_live and cid = "''alice+bob''" and now = 200]
    by (simp add: messages_of_def split: option.splits)
  from unread_accounting[where r = ex_dm and s = dm_empty and w = "''wrap_rcpt''"
        and me = "''bob''" and cid = "''bob+carol''"]
    unread_accounting[where s = ex_live and cid = "''alice+bob''" and now = 200
        and other = "''bob+carol''"]
    pre other before author live conv msgs
  show ?thesis
    by simp
qed

text \<open>
  With a store that rejects writes, \<^verbatim>\<open>markAsRead\<close> at time 200 leaves the last-seen
  timestamp of the conversation at 0.
\<close>

theorem markAsRead_lastSeen_counterexample:
  "getLastSeen (markAsRead 200 ''alice+bob'' (ex_live\<lparr>storageFull := True\<rparr>)) ''alice+bob'' = 0
   \<and> unread_of (markAsRead 200 ''alice+bob'' (ex_live\<lparr>storageFull := True\<rparr>)) ''alice+bob'' = 0"
  by (simp add: ex_live_eq markAsRead_def setLastSeen_def getLastSeen_def unread_of_def Let_def)















section \<open>Properties of the gift-wrap protocol\<close>

lemma get_put_nat: "get_nat (put_nat n @ rest) = Some (n, rest)"
  by (induction n) simp_all

lemma get_put_int: "get_int (put_int i @ rest) = Some (i, rest)"
  by (simp add: get_int_def put_int_def get_put_nat)

lemma get_put_str: "get_str (put_str s @ rest) = Some (s, rest)"
  by (simp add: get_str_def put_str_def get_put_nat)

lemma get_put_items:
  assumes "\<And>x rest. get (put x @ rest) = Some (x, rest)"
  shows "get_items get (length xs) (concat (map put xs) @ rest) = Some (xs, rest)"
  by (induction xs) (simp_all add: assms)

lemma get_put_list:
  assumes "\<And>x rest. get (put x @ rest) = Some (x, rest)"
  shows "get_list get (put_list put xs @ rest) = Some (xs, rest)"
  by (simp add: get_list_def put_list_def get_put_nat get_put_items[of get put, OF assms])

lemma get_put_tags: "get_tags (put_tags tgs @ rest) = Some (tgs, rest)"
  unfolding get_tags_def put_tags_def
  by (intro get_put_list) (rule get_put_str)

lemma get_put_rumor: "get_rumor (put_rumor r @ rest) = Some (r, rest)"
  by (simp add: get_rumor_def put_rumor_def get_put_str get_put_int get_put_tags)

lemma get_put_event: "get_event (put_event e @ rest) = Some (e, rest)"
  by (simp add: get_event_def put_event_def get_put_str get_put_int get_put_tags)

lemma and_then_Inr: "and_then m f = Inr y \<longleftrightarrow> (\<exists>x. m = Inr x \<and> f x = Inr y)"
  by (cases m) (simp_all add: and_then_def)

lemma and_then_simps [simp]: "and_then (Inr x) f = f x" "and_then (Inl e) f = Inl e"
  by (simp_all add: and_then_def)

lemma createGiftWrapLocal_opens:
  assumes L: "lib_contract L" and R: "getPublicKey L rk = Inr R"
    and w: "createGiftWrapLocal L rnd sk rumor R = Inr w"
  shows "\<exists>seal. opens L rk w seal rumor \<and> getPublicKey L sk = Inr (e_pubkey seal)"
proof -
  from w obtain sealConvKey encryptedRumor senderPubkey seal ephemeralPubkey wrapConvKey encryptedSeal
    where s1: "getConversationKey L sk R = Inr sealConvKey"
      and s2: "nip44_encrypt L (json_rumor L rumor) sealConvKey (seal_nonce rnd) = Inr encryptedRumor"
      and s3: "getPublicKey L sk = Inr senderPubkey"
      and s4: "finalizeEvent L \<lparr>u_kind = 13, u_created_at = seal_created_at rnd, u_tags = [],
           u_content = encryptedRumor, u_pubkey = senderPubkey\<rparr> sk = Inr seal"
      and s5: "getPublicKey L (ephemeralKey rnd) = Inr ephemeralPubkey"
      and s6: "getConversationKey L (ephemeralKey rnd) R = Inr wrapConvKey"
      and s7: "nip44_encrypt L (json_event L seal) wrapConvKey (wrap_nonce rnd) = Inr encryptedSeal"
      and s8: "finalizeEvent L \<lparr>u_kind = 1059, u_created_at = wrap_created_at rnd,
           u_tags = [[''p'', R]], u_content = encryptedSeal, u_pubkey = ephemeralPubkey\<rparr>
           (ephemeralKey rnd) = Inr w"
    unfolding createGiftWrapLocal_def Let_def and_then_Inr by blast
  from L s4 have seal: "e_content seal = encryptedRumor" "getPublicKey L sk = Inr (e_pubkey seal)"
    unfolding lib_contract_def by fastforce+
  from L s8 have wr: "e_content w = encryptedSeal" "getPublicKey L (ephemeralKey rnd) = Inr (e_pubkey w)"
    unfolding lib_contract_def by fastforce+
  from L R wr(2) s6 have k1: "getConversationKey L rk (e_pubkey w) = Inr wrapConvKey"
    unfolding lib_contract_def by metis
  from L R seal(2) s1 have k2: "getConversationKey L rk (e_pubkey seal) = Inr sealConvKey"
    unfolding lib_contract_def by metis
  from L s7 wr(1) have d1: "nip44_decrypt L (e_content w) wrapConvKey = Inr (json_event L seal)"
    unfolding lib_contract_def by metis
  from L s2 seal(1) have d2: "nip44_decrypt L (e_content seal) sealConvKey = Inr (json_rumor L rumor)"
    unfolding lib_contract_def by metis
  from k1 k2 d1 d2 seal(2) show ?thesis
    unfolding opens_def by blast
qed

lemma createGiftWrapForSigner_opens:
  assumes L: "lib_contract L" and S: "signer_contract L sk sg" and R: "getPublicKey L rk = Inr R"
    and w: "createGiftWrapForSigner L rnd sg rumor R = Inr w"
  shows "\<exists>seal. opens L rk w seal rumor \<and> getPublicKey L sk = Inr (e_pubkey seal)"
proof -
  from w obtain enc where enc: "s_nip44Encrypt sg = Some enc"
    by (cases "s_nip44Encrypt sg") (simp_all add: createGiftWrapForSigner_def)
  from w enc obtain encryptedRumor seal ephemeralPubkey conversationKey encryptedSeal
    where s1: "enc R (json_rumor L rumor) = Inr encryptedRumor"
      and s2: "s_signEvent sg \<lparr>t_kind = 13, t_created_at = seal_created_at rnd, t_tags = [],
                t_content = encryptedRumor\<rparr> = Inr seal"
      and s3: "getPublicKey L (ephemeralKey rnd) = Inr ephemeralPubkey"
      and s4: "getConversationKey L (ephemeralKey rnd) R = Inr conversationKey"
      and s5: "nip44_encrypt L (json_event L seal) conversationKey (wrap_nonce rnd) = Inr encryptedSeal"
      and s6: "finalizeEvent L \<lparr>u_kind = 1059, u_created_at = wrap_created_at rnd,
           u_tags = [[''p'', R]], u_content = encryptedSeal, u_pubkey = ephemeralPubkey\<rparr>
           (ephemeralKey rnd) = Inr w"
    by (auto simp: createGiftWrapForSigner_def Let_def and_then_Inr)
  from S s2 have seal: "e_content seal = encryptedRumor" "getPublicKey L sk = Inr (e_pubkey seal)"
    unfolding signer_contract_def by fastforce+
  from S enc s1 obtain k where k: "getConversationKey L sk R = Inr k"
      "nip44_decrypt L encryptedRumor k = Inr (json_rumor L rumor)"
    unfolding signer_contract_def by blast
  from L s6 have wr: "e_content w = encryptedSeal" "getPublicKey L (ephemeralKey rnd) = Inr (e_pubkey w)"
    unfolding lib_contract_def by fastforce+
  from L R wr(2) s4 have k1: "getConversationKey L rk (e_pubkey w) = Inr conversationKey"
    unfolding lib_contract_def by metis
  from L R seal(2) k(1) have k2: "getConversationKey L rk (e_pubkey seal) = Inr k"
    unfolding lib_contract_def by metis
  from L s5 wr(1) have d1: "nip44_decrypt L (e_content w) conversationKey = Inr (json_event L seal)"
    unfolding lib_contract_def by metis
  from k1 k2 d1 k(2) seal show ?thesis
    unfolding opens_def by blast
qed

lemma unwrapGiftWrapLocal_opens:
  assumes L: "lib_contract L" and o: "opens L rk w seal rumor"
  shows "unwrapGiftWrapLocal L w rk = Inr rumor"
proof -
  from L have p: "parse_event L (json_event L seal) = Inr seal"
      "parse_rumor L (json_rumor L rumor) = Inr rumor"
    unfolding lib_contract_def by blast+
  from o p show ?thesis
    unfolding opens_def unwrapGiftWrapLocal_def by auto
qed

lemma unwrapGiftWrap_signer_opens:
  assumes L: "lib_contract L" and S: "signer_contract L rk sg" and dec: "s_nip44Decrypt sg = Some dec"
    and o: "opens L rk w seal rumor"
  shows "unwrapGiftWrap L (Inr sg) w None =
           (if e_pubkey seal \<noteq> r_pubkey rumor then None else Some rumor)"
proof -
  from L have p: "parse_event L (json_event L seal) = Inr seal"
      "parse_rumor L (json_rumor L rumor) = Inr rumor"
    unfolding lib_contract_def by blast+
  from S dec have d: "\<And>pk c. dec pk c = and_then (getConversationKey L rk pk) (nip44_decrypt L c)"
    unfolding signer_contract_def by blast
  from o p show ?thesis
    unfolding opens_def unwrapGiftWrap_def unwrapGiftWrap_body_def
    by (auto simp: truthy_def dec d)
qed

lemma unwrapGiftWrap_local_opens:
  assumes L: "lib_contract L" and o: "opens L rk w seal rumor"
    and hex: "hexToBytes L hex = Inr rk" "hex \<noteq> []"
  shows "unwrapGiftWrap L gs w (Some hex) = Some rumor"
  using unwrapGiftWrapLocal_opens[OF L o] hex
  by (simp add: unwrapGiftWrap_def unwrapGiftWrap_body_def truthy_def)

lemma unwrap_paths_on_mismatch:
  assumes "lib_contract L" "opens L rk w seal rumor" "e_pubkey seal \<noteq> r_pubkey rumor"
    "hexToBytes L hex = Inr rk" "hex \<noteq> []"
    "signer_contract L rk sg" "s_nip44Decrypt sg = Some dec"
  shows "unwrapGiftWrap L gs w (Some hex) = Some rumor"
    and "unwrapGiftWrap L (Inr sg) w None = None"
  using unwrapGiftWrap_local_opens[OF assms(1,2,4,5)]
    unwrapGiftWrap_signer_opens[OF assms(1,6,7,2)] assms(3)
  by simp_all

lemma get_put_bytes: "get_list get_nat (put_list put_nat k @ rest) = Some (k, rest)"
  by (intro get_put_list) (rule get_put_nat)

lemma toy_conv_pub: "toy_conv a (toy_pub b) = Inr [sum_list a + sum_list b]"
  using get_put_bytes[of b "[]"] by (simp add: toy_conv_def toy_pub_def)

lemma toy_decrypt_encrypt: "toy_encrypt p k n = Inr c \<Longrightarrow> toy_decrypt c k = Inr p"
  by (auto simp: toy_encrypt_def toy_decrypt_def get_put_bytes)

lemma toy_parse_json:
  "toy_parse_rumor (put_rumor r) = Inr r" "toy_parse_event (put_event e) = Inr e"
  using get_put_rumor[of r "[]"] get_put_event[of e "[]"]
  by (simp_all add: toy_parse_rumor_def toy_parse_event_def)

lemma toy_lib_contract: "lib_contract toy_lib"
  unfolding lib_contract_def
proof (intro conjI allI impI)
  fix a b A B
  assume "getPublicKey toy_lib a = Inr A \<and> getPublicKey toy_lib b = Inr B"
  then show "getConversationKey toy_lib a B = getConversationKey toy_lib b A"
    by (auto simp: toy_lib_def toy_conv_pub add.commute)
next
  fix p k n c
  assume "nip44_encrypt toy_lib p k n = Inr c"
  then show "nip44_decrypt toy_lib c k = Inr p"
    by (simp add: toy_lib_def toy_decrypt_encrypt)
next
  fix r show "parse_rumor toy_lib (json_rumor toy_lib r) = Inr r"
    by (simp add: toy_lib_def toy_parse_json)
next
  fix e show "parse_event toy_lib (json_event toy_lib e) = Inr e"
    by (simp add: toy_lib_def toy_parse_json)
qed (auto simp: toy_lib_def toy_finalize_def)

lemma toy_signer_contract: "signer_contract toy_lib sk (toy_signer sk)"
  unfolding signer_contract_def
  by (auto simp: toy_lib_def toy_signer_def toy_finalize_def toy_conv_def toy_decrypt_encrypt
      and_then_Inr split: option.splits prod.splits list.splits)

lemma forged_wrap_created:
  "createGiftWrapLocal toy_lib ex_rand mallory_key forged_rumor (toy_pub bob_key) = Inr forged_wrap"
  by (simp add: createGiftWrapLocal_def toy_lib_def toy_conv_pub toy_encrypt_def toy_finalize_def
      ex_rand_def forged_wrap_def forged_seal_def mallory_key_def bob_key_def Let_def)

lemma toy_wraps_created:
  "\<exists>w. createGiftWrapLocal toy_lib rnd sk rumor (toy_pub rk) = Inr w"
  "\<exists>w. createGiftWrapForSigner toy_lib rnd (toy_signer sk) rumor (toy_pub rk) = Inr w"
  by (simp_all add: createGiftWrapLocal_def createGiftWrapForSigner_def toy_lib_def toy_signer_def
      toy_conv_pub toy_encrypt_def toy_finalize_def Let_def)

lemma toy_decrypt_put:
  "toy_decrypt (put_list put_nat n @ put_list put_nat k' @ p) k =
     (if k' = k then Inr p else Inl (Error ''invalid MAC''))"
  by (simp add: toy_decrypt_def get_put_bytes)

lemma forged_wrap_steps:
  "toy_conv bob_key (e_pubkey forged_wrap) = Inr [9]"
  "toy_decrypt (e_content forged_wrap) [9] = Inr (put_event forged_seal)"
  "toy_conv bob_key (e_pubkey forged_seal) = Inr [5]"
  "toy_decrypt (e_content forged_seal) [5] = Inr (put_rumor forged_rumor)"
  by (simp_all add: forged_wrap_def forged_seal_def toy_conv_pub toy_decrypt_put bob_key_def
      mallory_key_def)

lemma forged_wrap_opens: "opens toy_lib bob_key forged_wrap forged_seal forged_rumor"
  unfolding opens_def using forged_wrap_steps by (simp add: toy_lib_def)

lemma toy_hex_02:
  "hexToBytes toy_lib ''02'' = Inr bob_key" "hexToBytes toy_lib ''03'' = Inr mallory_key"
  by (simp_all add: toy_lib_def hex_val_def bob_key_def mallory_key_def)

lemma toy_pub_neq: "toy_pub mallory_key \<noteq> toy_pub alice_key"
  by code_simp

text \<open>
  Claim C1. A gift wrap whose seal carries one pubkey and whose rumor names another: on the
  external-signer path \<^verbatim>\<open>unwrapGiftWrap\<close> compares the two and returns \<^verbatim>\<open>null\<close>; on the
  local-private-key path \<^verbatim>\<open>unwrapGiftWrapLocal\<close> makes no comparison and the rumor is
  returned. Evaluated on the forged wrap: its seal is \<open>mallory\<close>'s, its rumor names
  \<open>alice\<close>, and \<open>bob\<close> unwrapping it with his private key gets the rumor.
\<close>

theorem unwrap_local_accepts_forged:
  "nip44_decrypt toy_lib (e_content forged_wrap) [9] = Inr (json_event toy_lib forged_seal)
   \<and> nip44_decrypt toy_lib (e_content forged_seal) [5] = Inr (json_rumor toy_lib forged_rumor)
   \<and> e_pubkey forged_seal \<noteq> r_pubkey forged_rumor
   \<and> unwrapGiftWrap toy_lib (Inr (toy_signer bob_key)) forged_wrap (Some ''02'') = Some forged_rumor
   \<and> unwrapGiftWrap toy_lib (Inr (toy_signer bob_key)) forged_wrap None = None"
proof -
  have neq: "e_pubkey forged_seal \<noteq> r_pubkey forged_rumor"
    using toy_pub_neq by (simp add: forged_seal_def forged_rumor_def)
  have "unwrapGiftWrapLocal toy_lib forged_wrap bob_key = Inr forged_rumor"
    using forged_wrap_steps
    by (simp add: unwrapGiftWrapLocal_def toy_lib_def toy_parse_json)
  then have local: "unwrapGiftWrap toy_lib (Inr (toy_signer bob_key)) forged_wrap (Some ''02'') =
      Some forged_rumor"
    by (simp add: unwrapGiftWrap_def unwrapGiftWrap_body_def truthy_def toy_hex_02)
  have ext: "unwrapGiftWrap toy_lib (Inr (toy_signer bob_key)) forged_wrap None = None"
    using forged_wrap_steps neq
    by (simp add: unwrapGiftWrap_def unwrapGiftWrap_body_def truthy_def toy_lib_def
        toy_signer_def toy_parse_json)
  from forged_wrap_steps neq local ext show ?thesis
    by (simp add: toy_lib_def)
qed

text \<open>
  Claim C5. Whatever step of the decryption fails, \<^verbatim>\<open>unwrapGiftWrap\<close> returns \<^verbatim>\<open>null\<close>:
  on the private-key path a key that does not decode or derive, a ciphertext that does not
  decrypt (wrong key, malformed ciphertext), a payload that is not JSON, for the wrap and
  for the seal inside it; on the signer path a signer that is missing or cannot decrypt, a
  decryption it rejects, a payload that is not JSON. The result is a value in every case:
  the \<^verbatim>\<open>catch\<close> of the function turns the throw into \<^verbatim>\<open>null\<close>.
\<close>

theorem unwrap_failure_returns_null:
  "(truthy pk \<longrightarrow>
      (hexToBytes L (the pk) = Inl e \<longrightarrow> unwrapGiftWrap L gs wrap pk = None) \<and>
      (hexToBytes L (the pk) = Inr sk \<longrightarrow>
        (getConversationKey L sk (e_pubkey wrap) = Inl e \<longrightarrow> unwrapGiftWrap L gs wrap pk = None) \<and>
        (getConversationKey L sk (e_pubkey wrap) = Inr k1 \<longrightarrow>
          (nip44_decrypt L (e_content wrap) k1 = Inl e \<longrightarrow> unwrapGiftWrap L gs wrap pk = None) \<and>
          (nip44_decrypt L (e_content wrap) k1 = Inr sealJson \<longrightarrow>
            (parse_event L sealJson = Inl e \<longrightarrow> unwrapGiftWrap L gs wrap pk = None) \<and>
            (parse_event L sealJson = Inr seal \<longrightarrow>
              (getConversationKey L sk (e_pubkey seal) = Inl e \<longrightarrow>
                 unwrapGiftWrap L gs wrap pk = None) \<and>
              (getConversationKey L sk (e_pubkey seal) = Inr k2 \<longrightarrow>
                (nip44_decrypt L (e_content seal) k2 = Inl e \<longrightarrow>
                   unwrapGiftWrap L gs wrap pk = None) \<and>
                (nip44_decrypt L (e_content seal) k2 = Inr rumorJson \<longrightarrow>
                   parse_rumor L rumorJson = Inl e \<longrightarrow>
                   unwrapGiftWrap L gs wrap pk = None)))))))
   \<and> (\<not> truthy pk \<longrightarrow>
      (gs = Inl e \<longrightarrow> unwrapGiftWrap L gs wrap pk = None) \<and>
      (gs = Inr sg \<longrightarrow>
        (s_nip44Decrypt sg = None \<longrightarrow> unwrapGiftWrap L gs wrap pk = None) \<and>
        (s_nip44Decrypt sg = Some dec \<longrightarrow>
          (dec (e_pubkey wrap) (e_content wrap) = Inl e \<longrightarrow> unwrapGiftWrap L gs wrap pk = None) \<and>
          (dec (e_pubkey wrap) (e_content wrap) = Inr sealJson \<longrightarrow>
            (parse_event L sealJson = Inl e \<longrightarrow> unwrapGiftWrap L gs wrap pk = None) \<and>
            (parse_event L sealJson = Inr seal \<longrightarrow>
              (dec (e_pubkey seal) (e_content seal) = Inl e \<longrightarrow>
                 unwrapGiftWrap L gs wrap pk = None) \<and>
              (dec (e_pubkey seal) (e_content seal) = Inr rumorJson \<longrightarrow>
                 parse_rumor L rumorJson = Inl e \<longrightarrow>
                 unwrapGiftWrap L gs wrap pk = None))))))"
  by (simp add: unwrapGiftWrap_def unwrapGiftWrap_body_def unwrapGiftWrapLocal_def)

text \<open>
  Claim C2, amended. With a library and signers that meet the contracts, for every rumor
  whose pubkey is the sender's public key (as every rumor built by \<^verbatim>\<open>createRumor\<close> is):
  a wrap produced for a recipient, by either backend, unwraps to exactly the rumor that was
  wrapped, with the recipient's private key and with the recipient's signer.
\<close>

theorem giftwrap_roundtrip:
  assumes L: "lib_contract L"
    and R: "getPublicKey L rk = Inr R"
    and author: "getPublicKey L sk = Inr (r_pubkey rumor)"
    and w: "createGiftWrapLocal L rnd sk rumor R = Inr w
            \<or> (signer_contract L sk sg \<and> createGiftWrapForSigner L rnd sg rumor R = Inr w)"
  shows "(hexToBytes L hex = Inr rk \<and> hex \<noteq> [] \<longrightarrow>
            unwrapGiftWrap L gs w (Some hex) = Some rumor)
       \<and> (signer_contract L rk sg' \<and> s_nip44Decrypt sg' \<noteq> None \<longrightarrow>
            unwrapGiftWrap L (Inr sg') w None = Some rumor)"
proof -
  from w obtain seal where o: "opens L rk w seal rumor"
    and pk: "getPublicKey L sk = Inr (e_pubkey seal)"
    using createGiftWrapLocal_opens[OF L R] createGiftWrapForSigner_opens[OF L _ R]
    by blast
  from author pk have same: "e_pubkey seal = r_pubkey rumor"
    by simp
  show ?thesis
  proof (intro conjI impI)
    assume "hexToBytes L hex = Inr rk \<and> hex \<noteq> []"
    then show "unwrapGiftWrap L gs w (Some hex) = Some rumor"
      using unwrapGiftWrap_local_opens[OF L o] by blast
  next
    assume a: "signer_contract L rk sg' \<and> s_nip44Decrypt sg' \<noteq> None"
    then obtain dec where dec: "s_nip44Decrypt sg' = Some dec"
      by auto
    with unwrapGiftWrap_signer_opens[OF L _ dec o] a same
    show "unwrapGiftWrap L (Inr sg') w None = Some rumor"
      by simp
  qed
qed

theorem giftwrap_roundtrip_witness:
  "\<not> isl (createGiftWrapLocal toy_lib ex_rand alice_key honest_rumor (toy_pub bob_key))
   \<and> \<not> isl (createGiftWrapForSigner toy_lib ex_rand (toy_signer alice_key) honest_rumor (toy_pub bob_key))
   \<and> unwrapGiftWrap toy_lib (Inl (Error ''no signer''))
        (projr (createGiftWrapLocal toy_lib ex_rand alice_key honest_rumor (toy_pub bob_key)))
        (Some ''02'') = Some honest_rumor
   \<and> unwrapGiftWrap toy_lib (Inr (toy_signer bob_key))
        (projr (createGiftWrapForSigner toy_lib ex_rand (toy_signer alice_key) honest_rumor
           (toy_pub bob_key)))
        None = Some honest_rumor"
proof -
  obtain w1 where w1:
    "createGiftWrapLocal toy_lib ex_rand alice_key honest_rumor (toy_pub bob_key) = Inr w1"
    using toy_wraps_created(1) by blast
  obtain w2 where w2: "createGiftWrapForSigner toy_lib ex_rand (toy_signer alice_key) honest_rumor
      (toy_pub bob_key) = Inr w2"
    using toy_wraps_created(2) by blast
  have R: "getPublicKey toy_lib bob_key = Inr (toy_pub bob_key)"
    by (simp add: toy_lib_def)
  have author: "getPublicKey toy_lib alice_key = Inr (r_pubkey honest_rumor)"
    by (simp add: toy_lib_def honest_rumor_def createRumor_def Let_def)
  have dec: "s_nip44Decrypt (toy_signer bob_key) \<noteq> None"
    by (simp add: toy_signer_def)
  have hex: "hexToBytes toy_lib ''02'' = Inr bob_key \<and> ''02'' \<noteq> []"
    by (simp add: toy_hex_02)
  from giftwrap_roundtrip[OF toy_lib_contract R author disjI1, OF w1, of "''02''"
      "Inl (Error ''no signer'')"] hex
  have a: "unwrapGiftWrap toy_lib (Inl (Error ''no signer'')) w1 (Some ''02'') = Some honest_rumor"
    by blast
  from giftwrap_roundtrip[OF toy_lib_contract R author disjI2, OF conjI, OF toy_signer_contract w2,
      where sg' = "toy_signer bob_key"] toy_signer_contract[of bob_key] dec
  have b: "unwrapGiftWrap toy_lib (Inr (toy_signer bob_key)) w2 None = Some honest_rumor"
    by blast
  from a b show ?thesis
    by (simp add: w1 w2)
qed

theorem roundtrip_signer_counterexample:
  "lib_contract toy_lib
   \<and> getPublicKey toy_lib bob_key = Inr (toy_pub bob_key)
   \<and> createGiftWrapLocal toy_lib ex_rand mallory_key forged_rumor (toy_pub bob_key) = Inr forged_wrap
   \<and> signer_contract toy_lib bob_key (toy_signer bob_key)
   \<and> unwrapGiftWrap toy_lib (Inr (toy_signer bob_key)) forged_wrap None \<noteq> Some forged_rumor"
proof -
  have neq: "e_pubkey forged_seal \<noteq> r_pubkey forged_rumor"
    using toy_pub_neq by (simp add: forged_seal_def forged_rumor_def)
  have dec: "s_nip44Decrypt (toy_signer bob_key) =
      Some (\<lambda>pk c. and_then (toy_conv bob_key pk) (toy_decrypt c))"
    by (simp add: toy_signer_def)
  from unwrapGiftWrap_signer_opens[OF toy_lib_contract toy_signer_contract dec forged_wrap_opens] neq
  have "unwrapGiftWrap toy_lib (Inr (toy_signer bob_key)) forged_wrap None = None"
    by simp
  with toy_lib_contract toy_signer_contract forged_wrap_created show ?thesis
    by (simp add: toy_lib_def)
qed

theorem unwrap_failure_returns_null_witness:
  "unwrapGiftWrap toy_lib (Inr (toy_signer bob_key)) forged_wrap (Some ''03'') = None
   \<and> unwrapGiftWrap toy_lib (Inr (toy_signer bob_key)) garbage_wrap (Some ''02'') = None
   \<and> unwrapGiftWrap toy_lib (Inr (toy_signer bob_key)) nonjson_wrap (Some ''02'') = None
   \<and> unwrapGiftWrap toy_lib (Inr (toy_signer mallory_key)) forged_wrap None = None
   \<and> unwrapGiftWrap toy_lib (Inr (toy_signer bob_key)) garbage_wrap None = None
   \<and> unwrapGiftWrap toy_lib (Inr (toy_signer bob_key)) nonjson_wrap None = None"
proof -
  have k: "getConversationKey toy_lib mallory_key (e_pubkey forged_wrap) = Inr [10]"
    "getConversationKey toy_lib bob_key (e_pubkey garbage_wrap) = Inr [9]"
    "getConversationKey toy_lib bob_key (e_pubkey nonjson_wrap) = Inr [9]"
    by (simp_all add: toy_lib_def forged_wrap_def garbage_wrap_def nonjson_wrap_def toy_conv_pub
        mallory_key_def bob_key_def)
  have wrong_key: "nip44_decrypt toy_lib (e_content forged_wrap) [10] = Inl (Error ''invalid MAC'')"
    by (simp add: toy_lib_def forged_wrap_def toy_decrypt_put)
  have malformed: "nip44_decrypt toy_lib (e_content garbage_wrap) [9] = Inl (Error ''invalid payload'')"
    by (simp add: toy_lib_def garbage_wrap_def toy_decrypt_def get_list_def)
  have plain: "nip44_decrypt toy_lib (e_content nonjson_wrap) [9] = Inr ''hello''"
    by (simp add: toy_lib_def nonjson_wrap_def toy_decrypt_put)
  have notjson: "parse_event toy_lib ''hello'' = Inl (Error ''SyntaxError'')"
    by (simp add: toy_lib_def toy_parse_event_def get_event_def get_str_def)
  have t: "truthy (Some ''03'')" "truthy (Some ''02'')" "\<not> truthy None"
    by (simp_all add: truthy_def)
  have dec: "\<And>sk. s_nip44Decrypt (toy_signer sk) =
      Some (\<lambda>pk c. and_then (toy_conv sk pk) (toy_decrypt c))"
    by (simp add: toy_signer_def)
  have sdec:
    "and_then (toy_conv mallory_key (e_pubkey forged_wrap)) (toy_decrypt (e_content forged_wrap)) =
       Inl (Error ''invalid MAC'')"
    "and_then (toy_conv bob_key (e_pubkey garbage_wrap)) (toy_decrypt (e_content garbage_wrap)) =
       Inl (Error ''invalid payload'')"
    "and_then (toy_conv bob_key (e_pubkey nonjson_wrap)) (toy_decrypt (e_content nonjson_wrap)) =
       Inr ''hello''"
    using k wrong_key malformed plain by (simp_all add: toy_lib_def)
  note inst = unwrap_failure_returns_null[where L = toy_lib]
  from inst[where pk = "Some ''03''" and sk = mallory_key and wrap = forged_wrap and ?k1.0 = "[10]"
      and e = "Error ''invalid MAC''"] t k wrong_key toy_hex_02
  have a: "unwrapGiftWrap toy_lib (Inr (toy_signer bob_key)) forged_wrap (Some ''03'') = None"
    by simp
  from inst[where pk = "Some ''02''" and sk = bob_key and wrap = garbage_wrap and ?k1.0 = "[9]"
      and e = "Error ''invalid payload''"] t k malformed toy_hex_02
  have b: "unwrapGiftWrap toy_lib (Inr (toy_signer bob_key)) garbage_wrap (Some ''02'') = None"
    by simp
  from inst[where pk = "Some ''02''" and sk = bob_key and wrap = nonjson_wrap and ?k1.0 = "[9]"
      and sealJson = "''hello''" and e = "Error ''SyntaxError''"] t k plain notjson toy_hex_02
  have c: "unwrapGiftWrap toy_lib (Inr (toy_signer bob_key)) nonjson_wrap (Some ''02'') = None"
    by simp
  from inst[where pk = None and gs = "Inr (toy_signer mallory_key)" and sg = "toy_signer mallory_key"
      and wrap = forged_wrap and e = "Error ''invalid MAC''"] t dec sdec
  have d: "unwrapGiftWrap toy_lib (Inr (toy_signer mallory_key)) forged_wrap None = None"
    by simp
  from inst[where pk = None and gs = "Inr (toy_signer bob_key)" and sg = "toy_signer bob_key"
      and wrap = garbage_wrap and e = "Error ''invalid payload''"] t dec sdec
  have e: "unwrapGiftWrap toy_lib (Inr (toy_signer bob_key)) garbage_wrap None = None"
    by simp
  from inst[where pk = None and gs = "Inr (toy_signer bob_key)" and sg = "toy_signer bob_key"
      and wrap = nonjson_wrap and sealJson = "''hello''" and e = "Error ''SyntaxError''"]
    t dec sdec notjson
  have f: "unwrapGiftWrap toy_lib (Inr (toy_signer bob_key)) nonjson_wrap None = None"
    by simp
  from a b c d e f show ?thesis
    by simp
qed

section \<open>Properties of sending, tracking and retry\<close>

lemma lookup_inboxes_published:
  "w_published (snd (lookup_inboxes env rcpt sender w)) = w_published w"
  by (simp add: lookup_inboxes_def Let_def split: prod.splits)

lemma wrapAndSendDM_no_capability:
  assumes "\<not> truthy privateKey" "env_getSigner env = Inr sg"
    "s_getPublicKey sg = Inr senderPubkey" "s_nip44Encrypt sg = None"
  shows "wrapAndSendDM L env rcpt content privateKey replyToId w =
     (Inl (Error ''Your signer does not support NIP-44 encryption, which is required for DMs.''),
      snd (lookup_inboxes env rcpt senderPubkey w))"
  using assms
  by (simp add: wrapAndSendDM_def Let_def split: prod.splits)

lemma wrapAndSendReaction_no_capability:
  assumes "\<not> truthy privateKey" "env_getSigner env = Inr sg"
    "s_getPublicKey sg = Inr senderPubkey" "s_nip44Encrypt sg = None"
  shows "wrapAndSendReaction L env rcpt emoji target privateKey w =
     (Inl (Error
        ''Your signer does not support NIP-44 encryption, which is required for DM reactions.''),
      snd (lookup_inboxes env rcpt senderPubkey w))"
  using assms
  by (simp add: wrapAndSendReaction_def Let_def split: prod.splits)

lemma zip_pool_publish:
  "zip relays (pool_publish relays event) =
     map (\<lambda>r. (r, \<lparr>op_relay = r, op_event = event\<rparr>)) relays"
  by (induction relays) (simp_all add: pool_publish_def)

lemma relayMap_set_tracked:
  "relayMap_set m (r, \<lparr>op_relay = r, op_event = ev\<rparr>) =
     (if r \<in> rp_relay ` set m then m else m @ [tracked ev r])"
  by (simp add: relayMap_set_def tracked_def)

lemma foldl_relayMap_set:
  "distinct xs \<Longrightarrow>
   foldl relayMap_set m (map (\<lambda>r. (r, \<lparr>op_relay = r, op_event = ev\<rparr>)) xs) =
     m @ map (tracked ev) (filter (\<lambda>r. r \<notin> rp_relay ` set m) xs)"
proof (induction xs arbitrary: m)
  case Nil
  then show ?case by simp
next
  case (Cons x xs)
  show ?case
  proof (cases "x \<in> rp_relay ` set m")
    case True
    with Cons show ?thesis by (simp add: relayMap_set_tracked)
  next
    case False
    have relay: "rp_relay (tracked ev x) = x"
      by (simp add: tracked_def)
    from Cons.prems have "x \<notin> set xs" by simp
    then have "filter (\<lambda>r. r \<notin> rp_relay ` set (m @ [tracked ev x])) xs =
        filter (\<lambda>r. r \<notin> rp_relay ` set m) xs"
      by (intro filter_cong) (auto simp: relay)
    with False Cons show ?thesis by (simp add: relayMap_set_tracked)
  qed
qed

lemma tracked_relays: "rp_relay ` set (map (tracked ev) xs) = set xs"
  by (simp add: tracked_def image_image)

lemma publish_two:
  assumes "distinct rr" "distinct sr"
  shows "publish_all [\<lparr>wd_event = a, wd_relays = rr\<rparr>, \<lparr>wd_event = b, wd_relays = sr\<rparr>] ([], issued) =
     (first_promises a rr b sr, issued @ pool_publish rr a @ pool_publish sr b)"
proof -
  have one: "foldl relayMap_set [] (zip rr (pool_publish rr a)) = map (tracked a) rr"
    by (simp add: zip_pool_publish foldl_relayMap_set[OF assms(1)])
  have two: "foldl relayMap_set (map (tracked a) rr) (zip sr (pool_publish sr b)) =
      first_promises a rr b sr"
    unfolding zip_pool_publish foldl_relayMap_set[OF assms(2)] tracked_relays first_promises_def ..
  show ?thesis
    by (simp add: Let_def one two)
qed

lemma distinct_js_dedup: "distinct (js_dedup xs)"
  by (simp add: js_dedup_def)

lemma first_promises_relays:
  "map rp_relay (first_promises a rr b sr) = rr @ filter (\<lambda>relay. relay \<notin> set rr) sr"
  by (simp add: first_promises_def tracked_def comp_def)

lemma first_promises_distinct:
  "distinct rr \<Longrightarrow> distinct sr \<Longrightarrow> distinct (map rp_relay (first_promises a rr b sr))"
  by (auto simp: first_promises_relays)

lemma first_promises_set:
  "rp_relay ` set (first_promises a rr b sr) = set rr \<union> set sr"
proof -
  have "rp_relay ` set (first_promises a rr b sr) = set (map rp_relay (first_promises a rr b sr))"
    by simp
  also have "\<dots> = set rr \<union> set sr"
    unfolding first_promises_relays by auto
  finally show ?thesis .
qed

lemma filter_tracked:
  "distinct xs \<Longrightarrow>
   filter (\<lambda>p. rp_relay p = relay) (map (tracked ev) xs) =
     (if relay \<in> set xs then [tracked ev relay] else [])"
  by (induction xs) (auto simp: tracked_def filter_empty_conv)

lemma filter_pool_publish:
  "distinct xs \<Longrightarrow>
   filter (\<lambda>op. op_relay op = relay) (pool_publish xs ev) =
     (if relay \<in> set xs then [\<lparr>op_relay = relay, op_event = ev\<rparr>] else [])"
  by (induction xs) (auto simp: pool_publish_def filter_empty_conv)

lemma first_promises_shared:
  assumes "distinct rr" "relay \<in> set rr"
  shows "filter (\<lambda>p. rp_relay p = relay) (first_promises a rr b sr) = [tracked a relay]"
proof -
  have "filter (\<lambda>p. rp_relay p = relay)
      (map (tracked b) (filter (\<lambda>relay. relay \<notin> set rr) sr)) = []"
    using assms(2) by (auto simp: filter_empty_conv tracked_def)
  then show ?thesis
    using assms by (simp add: first_promises_def filter_tracked)
qed

lemma count_one:
  "distinct (map f xs) \<Longrightarrow> y \<in> f ` set xs \<Longrightarrow> length (filter (\<lambda>x. f x = y) xs) = 1"
proof (induction xs)
  case Nil
  then show ?case by simp
next
  case (Cons x xs)
  show ?case
  proof (cases "f x = y")
    case True
    with Cons.prems(1) have "filter (\<lambda>x. f x = y) xs = []"
      by (auto simp: filter_empty_conv image_iff)
    with True show ?thesis by simp
  next
    case False
    with Cons show ?thesis by auto
  qed
qed

lemma initialRelays_fold:
  "foldl assign_pending m0 ps k =
     (if k \<in> key_of ` rp_relay ` set ps \<and> k \<noteq> ''__proto__'' then Some Pending else m0 k)"
  by (induction ps arbitrary: m0) (auto simp: assign_pending_def)

lemma trackRelays_pending:
  "fst (trackRelays tracking sendStatuses) (st_rumorId tracking) =
     Some \<lparr>ms_relays = (\<lambda>k. if k \<in> key_of ` rp_relay ` set (st_publishes tracking)
                                  \<and> k \<noteq> ''__proto__''
                               then Some Pending else None),
           ms_retryWraps = st_retryWraps tracking\<rparr>"
  by (simp add: trackRelays_def Let_def initialRelays_fold fun_eq_iff)

lemma wrapAndSendDM_result:
  assumes "wrapAndSendDM L env rcpt content privateKey replyToId w = (Inr res, w')"
  shows "\<exists>sg senderPubkey a b.
      env_getSigner env = Inr sg \<and> s_getPublicKey sg = Inr senderPubkey
    \<and> sr_rumor res = createRumor L (env_now env) senderPubkey rcpt content replyToId 14 []
    \<and> (if truthy privateKey
       then \<exists>k. hexToBytes L (the privateKey) = Inr k
              \<and> createGiftWrapLocal L (env_rand1 env) k (sr_rumor res) rcpt = Inr a
              \<and> createGiftWrapLocal L (env_rand2 env) k (sr_rumor res) senderPubkey = Inr b
       else createGiftWrapForSigner L (env_rand1 env) sg (sr_rumor res) rcpt = Inr a
          \<and> createGiftWrapForSigner L (env_rand2 env) sg (sr_rumor res) senderPubkey = Inr b)
    \<and> sr_retryWraps res =
        [\<lparr>wd_event = a, wd_relays =
            js_dedup (fst (fst (lookup_inboxes env rcpt senderPubkey w))
                      @ map Some (env_defaultRelays env))\<rparr>,
         \<lparr>wd_event = b, wd_relays =
            js_dedup (snd (fst (lookup_inboxes env rcpt senderPubkey w))
                      @ map Some (env_defaultRelays env))\<rparr>]
    \<and> sr_publishes res = fst (publish_all (sr_retryWraps res) ([], w_published w))
    \<and> w_published w' = snd (publish_all (sr_retryWraps res) ([], w_published w))"
proof -
  from assms obtain sg where sg: "env_getSigner env = Inr sg"
    by (cases "env_getSigner env") (simp_all add: wrapAndSendDM_def)
  from assms sg obtain pk where pk: "s_getPublicKey sg = Inr pk"
    by (cases "s_getPublicKey sg") (simp_all add: wrapAndSendDM_def)
  obtain ri si w1 where look: "lookup_inboxes env rcpt pk w = ((ri, si), w1)"
    by (metis prod.exhaust)
  have w1: "w_published w1 = w_published w"
    using lookup_inboxes_published[of env rcpt pk w] by (simp add: look)
  let ?rumor = "createRumor L (env_now env) pk rcpt content replyToId 14 []"
  let ?rr = "js_dedup (ri @ map Some (env_defaultRelays env))"
  let ?sr = "js_dedup (si @ map Some (env_defaultRelays env))"
  show ?thesis
  proof (cases "truthy privateKey")
    case True
    from assms obtain k where k: "hexToBytes L (the privateKey) = Inr k"
      by (cases "hexToBytes L (the privateKey)")
        (simp_all add: wrapAndSendDM_def sg pk look True and_then_def)
    from assms obtain a where a: "createGiftWrapLocal L (env_rand1 env) k ?rumor rcpt = Inr a"
      by (cases "createGiftWrapLocal L (env_rand1 env) k ?rumor rcpt")
        (simp_all add: wrapAndSendDM_def sg pk look True k and_then_def)
    from assms obtain b where b: "createGiftWrapLocal L (env_rand2 env) k ?rumor pk = Inr b"
      by (cases "createGiftWrapLocal L (env_rand2 env) k ?rumor pk")
        (simp_all add: wrapAndSendDM_def sg pk look True k a and_then_def)
    from assms have "res = \<lparr>sr_rumor = ?rumor,
          sr_publishes = fst (publish_all [\<lparr>wd_event = a, wd_relays = ?rr\<rparr>,
             \<lparr>wd_event = b, wd_relays = ?sr\<rparr>] ([], w_published w)),
          sr_retryWraps = [\<lparr>wd_event = a, wd_relays = ?rr\<rparr>, \<lparr>wd_event = b, wd_relays = ?sr\<rparr>]\<rparr>
        \<and> w_published w' = snd (publish_all [\<lparr>wd_event = a, wd_relays = ?rr\<rparr>,
             \<lparr>wd_event = b, wd_relays = ?sr\<rparr>] ([], w_published w))"
      by (auto simp: wrapAndSendDM_def sg pk look True k a b and_then_def w1 split: prod.splits)
    with sg pk True k a b look show ?thesis
      by auto
  next
    case False
    from assms obtain enc where enc: "s_nip44Encrypt sg = Some enc"
      by (cases "s_nip44Encrypt sg")
        (simp_all add: wrapAndSendDM_def sg pk look False)
    from assms obtain a where a: "createGiftWrapForSigner L (env_rand1 env) sg ?rumor rcpt = Inr a"
      by (cases "createGiftWrapForSigner L (env_rand1 env) sg ?rumor rcpt")
        (simp_all add: wrapAndSendDM_def sg pk look False enc and_then_def)
    from assms obtain b where b: "createGiftWrapForSigner L (env_rand2 env) sg ?rumor pk = Inr b"
      by (cases "createGiftWrapForSigner L (env_rand2 env) sg ?rumor pk")
        (simp_all add: wrapAndSendDM_def sg pk look False enc a and_then_def)
    from assms have "res = \<lparr>sr_rumor = ?rumor,
          sr_publishes = fst (publish_all [\<lparr>wd_event = a, wd_relays = ?rr\<rparr>,
             \<lparr>wd_event = b, wd_relays = ?sr\<rparr>] ([], w_published w)),
          sr_retryWraps = [\<lparr>wd_event = a, wd_relays = ?rr\<rparr>, \<lparr>wd_event = b, wd_relays = ?sr\<rparr>]\<rparr>
        \<and> w_published w' = snd (publish_all [\<lparr>wd_event = a, wd_relays = ?rr\<rparr>,
             \<lparr>wd_event = b, wd_relays = ?sr\<rparr>] ([], w_published w))"
      by (auto simp: wrapAndSendDM_def sg pk look False enc a b and_then_def w1 split: prod.splits)
    with sg pk False a b look show ?thesis
      by auto
  qed
qed

lemma ex_wraps_created:
  "createGiftWrapLocal toy_lib ex_rand alice_key honest_rumor (toy_pub bob_key) = Inr ex_wrap_rcpt"
  "createGiftWrapLocal toy_lib (ex_rand\<lparr>ephemeralKey := [8]\<rparr>) alice_key honest_rumor
     (toy_pub alice_key) = Inr ex_wrap_self"
  using toy_wraps_created(1)[of ex_rand alice_key honest_rumor bob_key]
    toy_wraps_created(1)[of "ex_rand\<lparr>ephemeralKey := [8]\<rparr>" alice_key honest_rumor alice_key]
  by (auto simp: ex_wrap_rcpt_def ex_wrap_self_def)

lemma ex_send:
  "wrapAndSendDM toy_lib ex_env (toy_pub bob_key) ''hi'' (Some ''01'') None ex_world =
     (Inr \<lparr>sr_rumor = honest_rumor,
        sr_publishes =
          [\<lparr>rp_relay = Some ''wss://relay.damus.io/'',
            rp_promise = \<lparr>op_relay = Some ''wss://relay.damus.io/'', op_event = ex_wrap_rcpt\<rparr>\<rparr>,
           \<lparr>rp_relay = Some ''wss://d.example/'',
            rp_promise = \<lparr>op_relay = Some ''wss://d.example/'', op_event = ex_wrap_rcpt\<rparr>\<rparr>],
        sr_retryWraps =
          [\<lparr>wd_event = ex_wrap_rcpt,
            wd_relays = [Some ''wss://relay.damus.io/'', Some ''wss://d.example/'']\<rparr>,
           \<lparr>wd_event = ex_wrap_self,
            wd_relays = [Some ''wss://relay.damus.io/'', Some ''wss://d.example/'']\<rparr>]\<rparr>,
      \<lparr>w_relays = \<lparr>inboxRelayCache = [toy_pub bob_key \<mapsto> fallback, toy_pub alice_key \<mapsto> fallback],
          relayStore = [toy_pub alice_key \<mapsto> \<lparr>cr_relays = fallback, cr_created_at = 0\<rparr>],
          relayStoreFull = False\<rparr>,
        w_published =
          [\<lparr>op_relay = Some ''wss://relay.damus.io/'', op_event = ex_wrap_rcpt\<rparr>,
           \<lparr>op_relay = Some ''wss://d.example/'', op_event = ex_wrap_rcpt\<rparr>,
           \<lparr>op_relay = Some ''wss://relay.damus.io/'', op_event = ex_wrap_self\<rparr>,
           \<lparr>op_relay = Some ''wss://d.example/'', op_event = ex_wrap_self\<rparr>]\<rparr>)"
proof -
  have hex: "hexToBytes toy_lib ''01'' = Inr alice_key"
    by (simp add: toy_lib_def hex_val_def alice_key_def)
  have sg: "env_getSigner ex_env = Inr (toy_signer alice_key)"
    "s_getPublicKey (toy_signer alice_key) = Inr (toy_pub alice_key)"
    by (simp_all add: ex_env_def toy_signer_def)
  have neq: "toy_pub alice_key \<noteq> toy_pub bob_key"
    by code_simp
  have look: "lookup_inboxes ex_env (toy_pub bob_key) (toy_pub alice_key) ex_world =
      ((fallback, fallback),
       \<lparr>w_relays = \<lparr>inboxRelayCache = [toy_pub bob_key \<mapsto> fallback, toy_pub alice_key \<mapsto> fallback],
          relayStore = [toy_pub alice_key \<mapsto> \<lparr>cr_relays = fallback, cr_created_at = 0\<rparr>],
          relayStoreFull = False\<rparr>,
        w_published = []\<rparr>)"
    using neq
    by (simp add: lookup_inboxes_def ex_env_def ex_world_def fetchInboxRelays_def
        fetchRelaysFromNetwork_def readRelayStore_def writeRelayStore_def Let_def)
  have rumor: "createRumor toy_lib (env_now ex_env) (toy_pub alice_key) (toy_pub bob_key) ''hi''
      None 14 [] = honest_rumor"
    by (simp add: honest_rumor_def ex_env_def)
  have relays: "js_dedup (fallback @ map Some (env_defaultRelays ex_env)) =
      [Some ''wss://relay.damus.io/'', Some ''wss://d.example/'']"
    by (simp add: js_dedup_def fallback_def ex_env_def)
  have rands: "env_rand1 ex_env = ex_rand" "env_rand2 ex_env = ex_rand\<lparr>ephemeralKey := [8]\<rparr>"
    by (simp_all add: ex_env_def)
  show ?thesis
    by (simp add: wrapAndSendDM_def sg look rumor relays rands truthy_def hex ex_wraps_created
        pool_publish_def relayMap_set_def)
qed

text \<open>
  Claim C9. On the delegated-signer path (no usable private key), with a signer that
  answers \<^verbatim>\<open>getPublicKey\<close> but has no \<^verbatim>\<open>nip44Encrypt\<close>: \<^verbatim>\<open>wrapAndSendDM\<close> and
  \<^verbatim>\<open>wrapAndSendReaction\<close> end with the capability error, no publish operation has been
  issued, and \<^verbatim>\<open>sendMessage\<close> and \<^verbatim>\<open>sendReaction\<close> pass the error on with the
  conversation state as it was. The error is raised before either wrap function is called.
\<close>

theorem capability_error_before_send:
  assumes "\<not> truthy privateKey" "env_getSigner env = Inr sg"
    "s_getPublicKey sg = Inr senderPubkey" "s_nip44Encrypt sg = None"
  shows "fst (wrapAndSendDM L env rcpt content privateKey replyToId w) =
           Inl (Error ''Your signer does not support NIP-44 encryption, which is required for DMs.'')
       \<and> w_published (snd (wrapAndSendDM L env rcpt content privateKey replyToId w)) = w_published w
       \<and> fst (wrapAndSendReaction L env rcpt emoji target privateKey w) =
           Inl (Error
             ''Your signer does not support NIP-44 encryption, which is required for DM reactions.'')
       \<and> w_published (snd (wrapAndSendReaction L env rcpt emoji target privateKey w)) = w_published w
       \<and> sendMessage L env (Some \<lparr>user_pubkey = me, user_privateKey = privateKey\<rparr>) rcpt content
            replyToId (s, w) =
           (Inl (Error ''Your signer does not support NIP-44 encryption, which is required for DMs.''),
            s, snd (lookup_inboxes env rcpt senderPubkey w))
       \<and> sendReaction L env (Some \<lparr>user_pubkey = me, user_privateKey = privateKey\<rparr>) rcpt emoji
            target (s, w) =
           (Inl (Error
              ''Your signer does not support NIP-44 encryption, which is required for DM reactions.''),
            s, snd (lookup_inboxes env rcpt senderPubkey w))"
  by (simp add: wrapAndSendDM_no_capability[OF assms] wrapAndSendReaction_no_capability[OF assms]
      lookup_inboxes_published sendMessage_def sendReaction_def)

theorem capability_error_before_send_witness:
  "fst (wrapAndSendDM toy_lib ex_env_nocap (toy_pub bob_key) ''hi'' None None ex_world) =
     Inl (Error ''Your signer does not support NIP-44 encryption, which is required for DMs.'')
   \<and> w_published (snd (wrapAndSendDM toy_lib ex_env_nocap (toy_pub bob_key) ''hi'' None None ex_world)) = []
   \<and> w_published (snd (wrapAndSendReaction toy_lib ex_env_nocap (toy_pub bob_key) ''+'' ''r1'' None
        ex_world)) = []
   \<and> fst (snd (sendMessage toy_lib ex_env_nocap
        (Some \<lparr>user_pubkey = toy_pub alice_key, user_privateKey = None\<rparr>) (toy_pub bob_key) ''hi''
        None (ex_live, ex_world))) = ex_live
   \<and> fst (snd (sendReaction toy_lib ex_env_nocap
        (Some \<lparr>user_pubkey = toy_pub alice_key, user_privateKey = None\<rparr>) (toy_pub bob_key) ''+''
        ''r1'' (ex_live, ex_world))) = ex_live"
proof -
  have pre: "\<not> truthy None"
    "env_getSigner ex_env_nocap = Inr ((toy_signer alice_key)\<lparr>s_nip44Encrypt := None\<rparr>)"
    "s_getPublicKey ((toy_signer alice_key)\<lparr>s_nip44Encrypt := None\<rparr>) = Inr (toy_pub alice_key)"
    "s_nip44Encrypt ((toy_signer alice_key)\<lparr>s_nip44Encrypt := None\<rparr>) = None"
    by (simp_all add: truthy_def ex_env_nocap_def toy_signer_def)
  have w0: "w_published ex_world = []"
    by (simp add: ex_world_def)
  from capability_error_before_send[OF pre, of toy_lib "toy_pub bob_key" "''hi''" None ex_world
      "''+''" "''r1''" "toy_pub alice_key" ex_live] w0
  show ?thesis
    by (simp add: prod_eq_iff)
qed

text \<open>
  Claim C8, amended. When \<^verbatim>\<open>wrapAndSendDM\<close> returns a result, it has built the rumor and
  the two wraps of it, \<open>a\<close> for the recipient and \<open>b\<close> for the sender, each with its
  destination list (the inbox relays followed by the default relays, each relay once). The
  stored wraps are these two. The tracked publishes are, for every relay of the recipient's
  list, the promise of the publish of \<open>a\<close> to it, then, for the relays only in the sender's
  list, the promise of the publish of \<open>b\<close>: every relay of the two lists is tracked exactly
  once, and a relay in both lists has the one entry that holds the promise for \<open>a\<close>. Every
  wrap has been published to every relay of its own list, so a relay in both lists has
  received two publish operations, one per wrap. \<^verbatim>\<open>trackRelays\<close> then records as pending
  every tracked relay whose key is not \<^verbatim>\<open>__proto__\<close>, and records nothing else.
\<close>

theorem send_tracks_each_relay_once:
  assumes "wrapAndSendDM L env rcpt content privateKey replyToId w = (Inr res, w')"
  shows "\<exists>sg senderPubkey a b rr sr.
      env_getSigner env = Inr sg \<and> s_getPublicKey sg = Inr senderPubkey
    \<and> rr = js_dedup (fst (fst (lookup_inboxes env rcpt senderPubkey w))
                     @ map Some (env_defaultRelays env))
    \<and> sr = js_dedup (snd (fst (lookup_inboxes env rcpt senderPubkey w))
                     @ map Some (env_defaultRelays env))
    \<and> sr_rumor res = createRumor L (env_now env) senderPubkey rcpt content replyToId 14 []
    \<and> (if truthy privateKey
       then \<exists>k. hexToBytes L (the privateKey) = Inr k
              \<and> createGiftWrapLocal L (env_rand1 env) k (sr_rumor res) rcpt = Inr a
              \<and> createGiftWrapLocal L (env_rand2 env) k (sr_rumor res) senderPubkey = Inr b
       else createGiftWrapForSigner L (env_rand1 env) sg (sr_rumor res) rcpt = Inr a
          \<and> createGiftWrapForSigner L (env_rand2 env) sg (sr_rumor res) senderPubkey = Inr b)
    \<and> sr_retryWraps res = [\<lparr>wd_event = a, wd_relays = rr\<rparr>, \<lparr>wd_event = b, wd_relays = sr\<rparr>]
    \<and> sr_publishes res = first_promises a rr b sr
    \<and> w_published w' = w_published w @ pool_publish rr a @ pool_publish sr b
    \<and> distinct (map rp_relay (sr_publishes res))
    \<and> rp_relay ` set (sr_publishes res) = set rr \<union> set sr
    \<and> (\<forall>relay \<in> set rr \<union> set sr.
         length (filter (\<lambda>p. rp_relay p = relay) (sr_publishes res)) = 1)
    \<and> (\<forall>relay \<in> set rr \<inter> set sr.
         filter (\<lambda>p. rp_relay p = relay) (sr_publishes res) = [tracked a relay]
         \<and> filter (\<lambda>op. op_relay op = relay) (pool_publish rr a @ pool_publish sr b) =
             [\<lparr>op_relay = relay, op_event = a\<rparr>, \<lparr>op_relay = relay, op_event = b\<rparr>])
    \<and> fst (trackRelays \<lparr>st_rumorId = r_id (sr_rumor res), st_publishes = sr_publishes res,
              st_retryWraps = sr_retryWraps res\<rparr> sendStatuses) (r_id (sr_rumor res)) =
        Some \<lparr>ms_relays = (\<lambda>k. if k \<in> key_of ` (set rr \<union> set sr) \<and> k \<noteq> ''__proto__''
                                 then Some Pending else None),
              ms_retryWraps = sr_retryWraps res\<rparr>"
proof -
  from wrapAndSendDM_result[OF assms] obtain sg senderPubkey a b where r:
    "env_getSigner env = Inr sg" "s_getPublicKey sg = Inr senderPubkey"
    "sr_rumor res = createRumor L (env_now env) senderPubkey rcpt content replyToId 14 []"
    "if truthy privateKey
       then \<exists>k. hexToBytes L (the privateKey) = Inr k
              \<and> createGiftWrapLocal L (env_rand1 env) k (sr_rumor res) rcpt = Inr a
              \<and> createGiftWrapLocal L (env_rand2 env) k (sr_rumor res) senderPubkey = Inr b
       else createGiftWrapForSigner L (env_rand1 env) sg (sr_rumor res) rcpt = Inr a
          \<and> createGiftWrapForSigner L (env_rand2 env) sg (sr_rumor res) senderPubkey = Inr b"
    "sr_retryWraps res =
        [\<lparr>wd_event = a, wd_relays =
            js_dedup (fst (fst (lookup_inboxes env rcpt senderPubkey w))
                      @ map Some (env_defaultRelays env))\<rparr>,
         \<lparr>wd_event = b, wd_relays =
            js_dedup (snd (fst (lookup_inboxes env rcpt senderPubkey w))
                      @ map Some (env_defaultRelays env))\<rparr>]"
    "sr_publishes res = fst (publish_all (sr_retryWraps res) ([], w_published w))"
    "w_published w' = snd (publish_all (sr_retryWraps res) ([], w_published w))"
    by blast
  define rr where "rr = js_dedup (fst (fst (lookup_inboxes env rcpt senderPubkey w))
                     @ map Some (env_defaultRelays env))"
  define sr where "sr = js_dedup (snd (fst (lookup_inboxes env rcpt senderPubkey w))
                     @ map Some (env_defaultRelays env))"
  have d: "distinct rr" "distinct sr"
    by (simp_all add: rr_def sr_def distinct_js_dedup)
  have ws: "sr_retryWraps res = [\<lparr>wd_event = a, wd_relays = rr\<rparr>, \<lparr>wd_event = b, wd_relays = sr\<rparr>]"
    using r(5) by (simp add: rr_def sr_def)
  have pubs: "sr_publishes res = first_promises a rr b sr"
    unfolding r(6) ws publish_two[OF d] by simp
  have issued: "w_published w' = w_published w @ pool_publish rr a @ pool_publish sr b"
    unfolding r(7) ws publish_two[OF d] by simp
  have dist: "distinct (map rp_relay (sr_publishes res))"
    unfolding pubs by (rule first_promises_distinct[OF d])
  have rel: "rp_relay ` set (sr_publishes res) = set rr \<union> set sr"
    unfolding pubs by (rule first_promises_set)
  have once: "\<forall>relay \<in> set rr \<union> set sr.
         length (filter (\<lambda>p. rp_relay p = relay) (sr_publishes res)) = 1"
    using count_one[OF dist] rel by blast
  have shared: "\<forall>relay \<in> set rr \<inter> set sr.
         filter (\<lambda>p. rp_relay p = relay) (sr_publishes res) = [tracked a relay]
         \<and> filter (\<lambda>op. op_relay op = relay) (pool_publish rr a @ pool_publish sr b) =
             [\<lparr>op_relay = relay, op_event = a\<rparr>, \<lparr>op_relay = relay, op_event = b\<rparr>]"
    unfolding pubs using d by (simp add: first_promises_shared filter_pool_publish)
  have track: "fst (trackRelays \<lparr>st_rumorId = r_id (sr_rumor res), st_publishes = sr_publishes res,
              st_retryWraps = sr_retryWraps res\<rparr> sendStatuses) (r_id (sr_rumor res)) =
        Some \<lparr>ms_relays = (\<lambda>k. if k \<in> key_of ` (set rr \<union> set sr) \<and> k \<noteq> ''__proto__''
                                 then Some Pending else None),
              ms_retryWraps = sr_retryWraps res\<rparr>"
    using trackRelays_pending[of "\<lparr>st_rumorId = r_id (sr_rumor res), st_publishes = sr_publishes res,
                 st_retryWraps = sr_retryWraps res\<rparr>" sendStatuses]
    by (simp add: rel)
  show ?thesis
    apply (rule exI[of _ sg], rule exI[of _ senderPubkey], rule exI[of _ a], rule exI[of _ b])
    apply (rule exI[of _ rr], rule exI[of _ sr])
    apply (intro conjI r(1) r(2) r(3) r(4) ws pubs issued dist rel once shared track)
     apply (rule rr_def)
    apply (rule sr_def)
    done
qed

theorem send_tracks_each_relay_once_witness:
  "sr_publishes (projr (fst
       (wrapAndSendDM toy_lib ex_env (toy_pub bob_key) ''hi'' (Some ''01'') None ex_world))) =
     [tracked ex_wrap_rcpt (Some ''wss://relay.damus.io/''),
      tracked ex_wrap_rcpt (Some ''wss://d.example/'')]
   \<and> map_option ms_relays (fst (trackRelays
        \<lparr>st_rumorId = r_id honest_rumor,
         st_publishes = sr_publishes (projr (fst
           (wrapAndSendDM toy_lib ex_env (toy_pub bob_key) ''hi'' (Some ''01'') None ex_world))),
         st_retryWraps = sr_retryWraps (projr (fst
           (wrapAndSendDM toy_lib ex_env (toy_pub bob_key) ''hi'' (Some ''01'') None ex_world)))\<rparr>
        Map.empty) (r_id honest_rumor)) =
       Some [''wss://relay.damus.io/'' \<mapsto> Pending, ''wss://d.example/'' \<mapsto> Pending]
   \<and> length (filter (\<lambda>p. rp_relay p = Some ''wss://d.example/'')
        (sr_publishes (projr (fst
          (wrapAndSendDM toy_lib ex_env (toy_pub bob_key) ''hi'' (Some ''01'') None ex_world))))) = 1
   \<and> filter (\<lambda>op. op_relay op = Some ''wss://d.example/'')
        (w_published (snd
          (wrapAndSendDM toy_lib ex_env (toy_pub bob_key) ''hi'' (Some ''01'') None ex_world))) =
       [\<lparr>op_relay = Some ''wss://d.example/'', op_event = ex_wrap_rcpt\<rparr>,
        \<lparr>op_relay = Some ''wss://d.example/'', op_event = ex_wrap_self\<rparr>]"
proof -
  define res where "res = \<lparr>sr_rumor = honest_rumor,
        sr_publishes =
          [\<lparr>rp_relay = Some ''wss://relay.damus.io/'',
            rp_promise = \<lparr>op_relay = Some ''wss://relay.damus.io/'', op_event = ex_wrap_rcpt\<rparr>\<rparr>,
           \<lparr>rp_relay = Some ''wss://d.example/'',
            rp_promise = \<lparr>op_relay = Some ''wss://d.example/'', op_event = ex_wrap_rcpt\<rparr>\<rparr>],
        sr_retryWraps =
          [\<lparr>wd_event = ex_wrap_rcpt,
            wd_relays = [Some ''wss://relay.damus.io/'', Some ''wss://d.example/'']\<rparr>,
           \<lparr>wd_event = ex_wrap_self,
            wd_relays = [Some ''wss://relay.damus.io/'', Some ''wss://d.example/'']\<rparr>]\<rparr>"
  obtain sent where send:
    "wrapAndSendDM toy_lib ex_env (toy_pub bob_key) ''hi'' (Some ''01'') None ex_world =
       (Inr res, sent)"
    unfolding res_def using ex_send by blast
  from send_tracks_each_relay_once[OF send, of Map.empty]
  obtain a b rr sr where
    ws: "sr_retryWraps res = [\<lparr>wd_event = a, wd_relays = rr\<rparr>, \<lparr>wd_event = b, wd_relays = sr\<rparr>]"
    and pubs: "sr_publishes res = first_promises a rr b sr"
    and issued: "w_published sent = w_published ex_world @ pool_publish rr a @ pool_publish sr b"
    and once: "\<forall>relay \<in> set rr \<union> set sr.
         length (filter (\<lambda>p. rp_relay p = relay) (sr_publishes res)) = 1"
    and shared: "\<forall>relay \<in> set rr \<inter> set sr.
         filter (\<lambda>p. rp_relay p = relay) (sr_publishes res) = [tracked a relay]
         \<and> filter (\<lambda>op. op_relay op = relay) (pool_publish rr a @ pool_publish sr b) =
             [\<lparr>op_relay = relay, op_event = a\<rparr>, \<lparr>op_relay = relay, op_event = b\<rparr>]"
    and track: "fst (trackRelays \<lparr>st_rumorId = r_id (sr_rumor res), st_publishes = sr_publishes res,
              st_retryWraps = sr_retryWraps res\<rparr> Map.empty) (r_id (sr_rumor res)) =
        Some \<lparr>ms_relays = (\<lambda>k. if k \<in> key_of ` (set rr \<union> set sr) \<and> k \<noteq> ''__proto__''
                                 then Some Pending else None),
              ms_retryWraps = sr_retryWraps res\<rparr>"
    by blast
  from ws have ab: "a = ex_wrap_rcpt" "b = ex_wrap_self"
    "rr = [Some ''wss://relay.damus.io/'', Some ''wss://d.example/'']"
    "sr = [Some ''wss://relay.damus.io/'', Some ''wss://d.example/'']"
    by (auto simp: res_def)
  have sel: "sr_rumor res = honest_rumor" "w_published ex_world = []"
    by (simp_all add: res_def ex_world_def)
  have c1: "sr_publishes res =
     [tracked ex_wrap_rcpt (Some ''wss://relay.damus.io/''),
      tracked ex_wrap_rcpt (Some ''wss://d.example/'')]"
    unfolding pubs ab by (simp add: first_promises_def)
  have c2: "map_option ms_relays (fst (trackRelays
        \<lparr>st_rumorId = r_id honest_rumor, st_publishes = sr_publishes res,
         st_retryWraps = sr_retryWraps res\<rparr> Map.empty) (r_id honest_rumor)) =
       Some [''wss://relay.damus.io/'' \<mapsto> Pending, ''wss://d.example/'' \<mapsto> Pending]"
    using track unfolding ab sel by (auto simp: key_of_def fun_eq_iff)
  have c3: "length (filter (\<lambda>p. rp_relay p = Some ''wss://d.example/'') (sr_publishes res)) = 1"
    using once unfolding ab by simp
  have c4: "filter (\<lambda>op. op_relay op = Some ''wss://d.example/'') (w_published sent) =
       [\<lparr>op_relay = Some ''wss://d.example/'', op_event = ex_wrap_rcpt\<rparr>,
        \<lparr>op_relay = Some ''wss://d.example/'', op_event = ex_wrap_self\<rparr>]"
    using shared unfolding issued ab sel by simp
  show ?thesis
    unfolding send fst_conv snd_conv sum.sel by (intro conjI c1 c2 c3 c4)
qed

theorem one_publish_per_relay_counterexample:
  "\<not> isl (fst (wrapAndSendDM toy_lib ex_env (toy_pub bob_key) ''hi'' (Some ''01'') None ex_world))
   \<and> count_list (map op_relay (w_published (snd
          (wrapAndSendDM toy_lib ex_env (toy_pub bob_key) ''hi'' (Some ''01'') None ex_world))))
        (Some ''wss://d.example/'') = 2
   \<and> count_list (map rp_relay (sr_publishes (projr (fst
          (wrapAndSendDM toy_lib ex_env (toy_pub bob_key) ''hi'' (Some ''01'') None ex_world)))))
        (Some ''wss://d.example/'') = 1"
  by (simp add: ex_send)

lemma all_ops_member:
  "op \<in> set (all_ops ws) \<longleftrightarrow>
     (\<exists>d \<in> set ws. op_event op = wd_event d \<and> op_relay op \<in> set (wd_relays d))"
  by (cases op) (auto simp: all_ops_def pool_publish_def image_iff)

text \<open>
  Claim C3, amended. \<^verbatim>\<open>handleRetry\<close> on a tracked rumor resets every relay of the record to
  pending, whatever its state was, and leaves the record's relay set, its stored wraps and
  every other record as they were; it publishes every stored wrap again to every relay of
  that wrap's list, and nothing else: the events are the stored ones, none is built or
  signed anew; it watches only publishes to relays that are in the record, and however a
  watched publish ends, the record keeps its relay set and its stored wraps.
\<close>

theorem retry_republishes_stored_wraps:
  assumes "sendStatuses rumorId = Some status"
  shows "fst (handleRetry rumorId (sendStatuses, issued)) rumorId =
           Some (status\<lparr>ms_relays := (\<lambda>r. map_option (\<lambda>_. Pending) (ms_relays status r))\<rparr>)
       \<and> (\<forall>other. other \<noteq> rumorId \<longrightarrow>
            fst (handleRetry rumorId (sendStatuses, issued)) other = sendStatuses other)
       \<and> fst (snd (handleRetry rumorId (sendStatuses, issued))) =
           issued @ all_ops (ms_retryWraps status)
       \<and> (\<forall>op. op \<in> set (all_ops (ms_retryWraps status)) \<longleftrightarrow>
            (\<exists>d \<in> set (ms_retryWraps status).
               op_event op = wd_event d \<and> op_relay op \<in> set (wd_relays d)))
       \<and> (\<forall>rc \<in> set (snd (snd (handleRetry rumorId (sendStatuses, issued)))).
            race_rumorId rc = rumorId \<and> ms_relays status (key_of (race_relay rc)) \<noteq> None
            \<and> race_promise rc \<in> set (all_ops (ms_retryWraps status))
            \<and> (\<forall>how. \<exists>ms.
                  settle rc how (fst (handleRetry rumorId (sendStatuses, issued))) rumorId = Some ms
                  \<and> dom (ms_relays ms) = dom (ms_relays status)
                  \<and> ms_retryWraps ms = ms_retryWraps status))"
proof -
  let ?reset = "status\<lparr>ms_relays := (\<lambda>r. map_option (\<lambda>_. Pending) (ms_relays status r))\<rparr>"
  let ?races = "\<lambda>w. map (\<lambda>(relay, p). \<lparr>race_rumorId = rumorId, race_relay = relay,
                                              race_promise = p\<rparr>)
                  (filter (\<lambda>(relay, p). is_tracked (ms_relays status) relay)
                     (zip (wd_relays w) (pool_publish (wd_relays w) (wd_event w))))"
  have eq: "handleRetry rumorId (sendStatuses, issued) =
      (sendStatuses(rumorId \<mapsto> ?reset),
       issued @ all_ops (ms_retryWraps status),
       concat (map ?races (ms_retryWraps status)))"
    using assms by (simp add: handleRetry_def Let_def all_ops_def)
  have tracked: "\<forall>rc \<in> set (concat (map ?races (ms_retryWraps status))).
            race_rumorId rc = rumorId \<and> ms_relays status (key_of (race_relay rc)) \<noteq> None
            \<and> race_promise rc \<in> set (all_ops (ms_retryWraps status))"
    by (auto simp: is_tracked_def key_of_def all_ops_def split: option.splits dest: set_zip_rightD)
  have settled: "\<exists>ms. settle rc how (sendStatuses(rumorId \<mapsto> ?reset)) rumorId = Some ms
                  \<and> dom (ms_relays ms) = dom (ms_relays status)
                  \<and> ms_retryWraps ms = ms_retryWraps status"
    if "rc \<in> set (concat (map ?races (ms_retryWraps status)))" for rc how
  proof -
    from tracked that have rc: "race_rumorId rc = rumorId"
      "ms_relays status (key_of (race_relay rc)) \<noteq> None"
      by blast+
    have "dom (ms_relays ?reset) = dom (ms_relays status)"
      by (auto simp: dom_def)
    moreover have "ms_relays ?reset (key_of (race_relay rc)) \<noteq> None"
      using rc(2) by simp
    ultimately show ?thesis
      using rc(1) by (auto simp: settle_def updateRelayStatus_def)
  qed
  have a: "fst (handleRetry rumorId (sendStatuses, issued)) rumorId = Some ?reset"
    and b: "\<forall>other. other \<noteq> rumorId \<longrightarrow>
            fst (handleRetry rumorId (sendStatuses, issued)) other = sendStatuses other"
    and c: "fst (snd (handleRetry rumorId (sendStatuses, issued))) =
           issued @ all_ops (ms_retryWraps status)"
    by (simp_all add: eq)
  have d: "\<forall>op. op \<in> set (all_ops (ms_retryWraps status)) \<longleftrightarrow>
            (\<exists>d \<in> set (ms_retryWraps status).
               op_event op = wd_event d \<and> op_relay op \<in> set (wd_relays d))"
    by (simp add: all_ops_member)
  have e: "\<forall>rc \<in> set (snd (snd (handleRetry rumorId (sendStatuses, issued)))).
            race_rumorId rc = rumorId \<and> ms_relays status (key_of (race_relay rc)) \<noteq> None
            \<and> race_promise rc \<in> set (all_ops (ms_retryWraps status))
            \<and> (\<forall>how. \<exists>ms.
                  settle rc how (fst (handleRetry rumorId (sendStatuses, issued))) rumorId = Some ms
                  \<and> dom (ms_relays ms) = dom (ms_relays status)
                  \<and> ms_retryWraps ms = ms_retryWraps status)"
    unfolding eq fst_conv snd_conv using tracked settled by blast
  show ?thesis
    by (intro conjI a b c d e)
qed

theorem retry_republishes_stored_wraps_witness:
  "map_option ms_relays (fst (handleRetry ''r1'' (ex_statuses, [])) ''r1'') =
     Some [''wss://a.example/'' \<mapsto> Pending, ''wss://b.example/'' \<mapsto> Pending,
           ''wss://c.example/'' \<mapsto> Pending]
   \<and> fst (snd (handleRetry ''r1'' (ex_statuses, []))) =
       [\<lparr>op_relay = Some ''wss://a.example/'', op_event = ex_wrap_rcpt\<rparr>,
        \<lparr>op_relay = Some ''wss://b.example/'', op_event = ex_wrap_rcpt\<rparr>,
        \<lparr>op_relay = Some ''wss://c.example/'', op_event = ex_wrap_self\<rparr>,
        \<lparr>op_relay = Some ''wss://b.example/'', op_event = ex_wrap_self\<rparr>]"
proof -
  have st: "ex_statuses ''r1'' = Some \<lparr>ms_relays = [''wss://a.example/'' \<mapsto> Failed,
       ''wss://b.example/'' \<mapsto> Sent, ''wss://c.example/'' \<mapsto> Timeout],
     ms_retryWraps = [\<lparr>wd_event = ex_wrap_rcpt,
         wd_relays = [Some ''wss://a.example/'', Some ''wss://b.example/'']\<rparr>,
       \<lparr>wd_event = ex_wrap_self,
         wd_relays = [Some ''wss://c.example/'', Some ''wss://b.example/'']\<rparr>]\<rparr>"
    by (simp add: ex_statuses_def)
  from retry_republishes_stored_wraps[where sendStatuses = ex_statuses and rumorId = "''r1''"
      and issued = "[]", OF st]
  show ?thesis
    by (simp add: all_ops_def pool_publish_def fun_eq_iff)
qed

theorem retry_only_unsent_counterexample:
  "ms_relays (the (ex_statuses ''r1'')) ''wss://b.example/'' = Some Sent
   \<and> ms_relays (the (fst (handleRetry ''r1'' (ex_statuses, [])) ''r1'')) ''wss://b.example/'' =
       Some Pending
   \<and> \<lparr>op_relay = Some ''wss://b.example/'', op_event = ex_wrap_rcpt\<rparr>
       \<in> set (fst (snd (handleRetry ''r1'' (ex_statuses, []))))"
  by (simp add: handleRetry_def ex_statuses_def pool_publish_def Let_def)

end
